theory Spec2Isabelle
  imports Complex_Main "HOL-Library.Word"
begin

section \<open>JavaScript strings\<close>

text \<open>
  A JavaScript string is a sequence of 16-bit code units; \<open>length\<close>, \<open>trim\<close>, the regular
  expressions and \<open>replace\<close> of the validator all work on code units.  \<open>js\<close> turns an ASCII
  literal into such a sequence.
\<close>

type_synonym jschar = "16 word"
type_synonym jsstring = "jschar list"

definition js :: "string \<Rightarrow> jsstring" where
  "js s = map (\<lambda>c. of_nat (of_char c)) s"

text \<open>
  \<open>String.prototype.trim\<close> removes the code points of WhiteSpace and LineTerminator
  (ECMAScript 2015 and later) from both ends.
\<close>

definition isWhiteSpace :: "jschar \<Rightarrow> bool" where
  "isWhiteSpace c \<longleftrightarrow>
     c \<in> set [0x09, 0x0A, 0x0B, 0x0C, 0x0D, 0x20, 0xA0, 0x1680,
               0x2000, 0x2001, 0x2002, 0x2003, 0x2004, 0x2005, 0x2006, 0x2007,
               0x2008, 0x2009, 0x200A, 0x2028, 0x2029, 0x202F, 0x205F, 0x3000, 0xFEFF]"

definition trim :: "jsstring \<Rightarrow> jsstring" where
  "trim s = rev (dropWhile isWhiteSpace (rev (dropWhile isWhiteSpace s)))"

text \<open>\<open>s.replace(/c/g, r)\<close> for a one-character pattern.\<close>

definition replaceAll :: "jschar \<Rightarrow> jsstring \<Rightarrow> jsstring \<Rightarrow> jsstring" where
  "replaceAll c r s = concat (map (\<lambda>x. if x = c then r else [x]) s)"

text \<open>The character class \<open>[\x00-\x1F\x7F]\<close>.\<close>

definition isControl :: "jschar \<Rightarrow> bool" where
  "isControl c \<longleftrightarrow> c \<le> 0x1F \<or> c = 0x7F"

definition isDigit :: "jschar \<Rightarrow> bool" where
  "isDigit c \<longleftrightarrow> 0x30 \<le> c \<and> c \<le> 0x39"

section \<open>TodoValidator\<close>

text \<open>
  A todo item.  The source's field names \<open>id\<close> and \<open>text\<close> carry a prime here, since both
  names are taken in Isabelle.  The fields carry the types the application writes: strings
  and a boolean.  A field that is missing in the source is not represented; the empty
  string is the one falsy value a string field can hold.
\<close>

record todo =
  id' :: jsstring
  text' :: jsstring
  completed :: bool
  createdAt :: jsstring
  updatedAt :: jsstring

text \<open>The validation rules of the constructor (\<open>this.rules\<close>).\<close>

definition minLength :: nat where "minLength = 1"
definition maxLength :: nat where "maxLength = 200"

text \<open>\<open>/^[^<>]*$/\<close>\<close>

definition textPattern :: "jsstring \<Rightarrow> bool" where
  "textPattern s = list_all (\<lambda>c. c \<noteq> 0x3C \<and> c \<noteq> 0x3E) s"

text \<open>\<open>/^[a-zA-Z0-9_-]+$/\<close>\<close>

definition isIdChar :: "jschar \<Rightarrow> bool" where
  "isIdChar c \<longleftrightarrow> (0x61 \<le> c \<and> c \<le> 0x7A) \<or> (0x41 \<le> c \<and> c \<le> 0x5A) \<or> isDigit c
                   \<or> c = 0x5F \<or> c = 0x2D"

definition idPattern :: "jsstring \<Rightarrow> bool" where
  "idPattern s = (s \<noteq> [] \<and> list_all isIdChar s)"

text \<open>\<open>/^\d{4}-\d{2}-\d{2}T\d{2}:\d{2}:\d{2}\.\d{3}Z$/\<close>, position by position.\<close>

datatype charClass = Digit | Lit jschar

fun matchClass :: "charClass \<Rightarrow> jschar \<Rightarrow> bool" where
  "matchClass Digit c = isDigit c"
| "matchClass (Lit l) c = (c = l)"

definition timestampTemplate :: "charClass list" where
  "timestampTemplate =
     [Digit, Digit, Digit, Digit, Lit 0x2D, Digit, Digit, Lit 0x2D, Digit, Digit, Lit 0x54,
      Digit, Digit, Lit 0x3A, Digit, Digit, Lit 0x3A, Digit, Digit, Lit 0x2E,
      Digit, Digit, Digit, Lit 0x5A]"

definition timestampPattern :: "jsstring \<Rightarrow> bool" where
  "timestampPattern s = list_all2 matchClass timestampTemplate s"

text \<open>
  The error messages of the source, as constructors: in the order of the source,
  empty text, text not a string, text too short, text too long, illegal characters in the
  text, empty ID, ID not a string, malformed ID, missing completion flag, completion flag
  not a boolean, and for a timestamp field (named by the string): empty, not a string,
  malformed, not a valid date; then the two messages of \<open>validateTodoArray\<close> (a
  duplicate ID with the two indices, an invalid item with its one-based index) and the
  message of \<open>validateUpdates\<close> for a field that may not be updated.
\<close>

datatype verror =
    EmptyText | TextNotString | TextTooShort | TextTooLong | TextIllegalChars
  | EmptyId | IdNotString | IdBadFormat
  | CompletedMissing | CompletedNotBoolean
  | TimestampEmpty string | TimestampNotString string
  | TimestampBadFormat string | TimestampInvalidDate string
  | DuplicateId jsstring nat nat | ItemInvalid nat "verror list"
  | FieldNotAllowed string

record validation =
  isValid :: bool
  errors :: "verror list"

record textValidation = validation +
  sanitizedText :: jsstring

record todoValidation = validation +
  sanitizedTodo :: todo

record arrayValidation = validation +
  validTodos :: "todo list"

record createResult = validation +
  newTodo :: "todo option"

text \<open>
  \<open>sanitizeInput\<close>: trim, escape the five HTML characters one replacement after the other,
  remove the control characters, cut at \<open>maxLength\<close>.
\<close>

definition sanitizeInput :: "jsstring \<Rightarrow> jsstring" where
  "sanitizeInput input =
     (if input = [] then []
      else let sanitized = trim input;
               sanitized = replaceAll 0x26 (js ''&amp;'') sanitized;
               sanitized = replaceAll 0x3C (js ''&lt;'') sanitized;
               sanitized = replaceAll 0x3E (js ''&gt;'') sanitized;
               sanitized = replaceAll 0x22 (js ''&quot;'') sanitized;
               sanitized = replaceAll 0x27 (js ''&#39;'') sanitized;
               sanitized = filter (\<lambda>c. \<not> isControl c) sanitized
           in if length sanitized > maxLength then take maxLength sanitized else sanitized)"

text \<open>
  \<open>validateTodoText\<close> on a string.  \<open>text\<close> is truthy exactly when it is not empty; the
  test \<open>typeof text !== 'string'\<close> is never true of a string and has no branch here.  The
  two length tests read the length of the text as given, not of the trimmed text.
\<close>

definition validateTodoText :: "jsstring \<Rightarrow> textValidation" where
  "validateTodoText t =
     (let es = [];
          es = (if t = [] \<or> trim t = [] then es @ [EmptyText] else es);
          es = (if t \<noteq> [] \<and> length t < minLength then es @ [TextTooShort] else es);
          es = (if t \<noteq> [] \<and> length t > maxLength then es @ [TextTooLong] else es);
          es = (if t \<noteq> [] \<and> \<not> textPattern t then es @ [TextIllegalChars] else es)
      in \<lparr>isValid = (es = []), errors = es, sanitizedText = sanitizeInput t\<rparr>)"

text \<open>
  \<open>validateTodoId\<close> on a string and \<open>validateCompleted\<close> on a boolean: the tests of
  \<open>typeof\<close> and of \<open>undefined\<close> are never true of these, so \<open>validateCompleted\<close> finds no
  error.
\<close>

definition validateTodoId :: "jsstring \<Rightarrow> validation" where
  "validateTodoId i =
     (let es = [];
          es = (if i = [] \<or> trim i = [] then es @ [EmptyId] else es);
          es = (if i \<noteq> [] \<and> \<not> idPattern i then es @ [IdBadFormat] else es)
      in \<lparr>isValid = (es = []), errors = es\<rparr>)"

definition validateCompleted :: "bool \<Rightarrow> validation" where
  "validateCompleted c = \<lparr>isValid = True, errors = []\<rparr>"

text \<open>
  \<open>validateTimestamp\<close>.  \<open>new Date(timestamp).getTime()\<close> is the platform's date parser: it
  is the parameter \<open>parseDate\<close>, which returns the milliseconds since the epoch, or \<open>None\<close>
  for an invalid date (\<open>NaN\<close>).
\<close>

definition validateTimestamp :: "(jsstring \<Rightarrow> int option) \<Rightarrow> jsstring \<Rightarrow> string \<Rightarrow> validation" where
  "validateTimestamp parseDate ts fieldName =
     (let es = [];
          es = (if ts = [] \<or> trim ts = [] then es @ [TimestampEmpty fieldName] else es);
          es = (if ts \<noteq> [] \<and> \<not> timestampPattern ts then es @ [TimestampBadFormat fieldName] else es);
          es = (if ts \<noteq> [] \<and> timestampPattern ts \<and> parseDate ts = None
                then es @ [TimestampInvalidDate fieldName] else es)
      in \<lparr>isValid = (es = []), errors = es\<rparr>)"

text \<open>
  \<open>validateTodoData\<close>.  The two \<open>new Date().toISOString()\<close> defaults of an empty timestamp
  are the parameters \<open>now1\<close> and \<open>now2\<close>.
\<close>

definition validateTodoData ::
  "(jsstring \<Rightarrow> int option) \<Rightarrow> jsstring \<Rightarrow> jsstring \<Rightarrow> todo \<Rightarrow> todoValidation" where
  "validateTodoData parseDate now1 now2 t =
     (let textValidation = validateTodoText (text' t);
          es = (if \<not> isValid textValidation then errors textValidation else []);
          idValidation = validateTodoId (id' t);
          es = (if \<not> isValid idValidation then es @ errors idValidation else es);
          completedValidation = validateCompleted (completed t);
          es = (if \<not> isValid completedValidation then es @ errors completedValidation else es);
          createdValidation = validateTimestamp parseDate (createdAt t) ''createdAt'';
          es = (if \<not> isValid createdValidation then es @ errors createdValidation else es);
          updatedValidation = validateTimestamp parseDate (updatedAt t) ''updatedAt'';
          es = (if \<not> isValid updatedValidation then es @ errors updatedValidation else es)
      in \<lparr>isValid = (es = []), errors = es,
          sanitizedTodo = \<lparr>id' = id' t, text' = sanitizedText textValidation,
                           completed = completed t,
                           createdAt = (if createdAt t = [] then now1 else createdAt t),
                           updatedAt = (if updatedAt t = [] then now2 else updatedAt t)\<rparr>\<rparr>)"

text \<open>
  \<open>validateTodoArray\<close>.  The first loop looks for duplicate IDs with the map \<open>idMap\<close> from
  an ID to the index of its first occurrence: a later occurrence adds an error message and
  nothing else (the set \<open>duplicateIds\<close> of the source is written and never read).
\<close>

fun duplicateScan :: "todo list \<Rightarrow> nat \<Rightarrow> (jsstring \<rightharpoonup> nat) \<Rightarrow> verror list" where
  "duplicateScan [] index idMap = []"
| "duplicateScan (t # ts) index idMap =
     (if id' t = [] then duplicateScan ts (Suc index) idMap
      else case idMap (id' t) of
             Some first \<Rightarrow> DuplicateId (id' t) first index # duplicateScan ts (Suc index) idMap
           | None \<Rightarrow> duplicateScan ts (Suc index) (idMap(id' t \<mapsto> index)))"

text \<open>
  The second loop validates every item on its own and keeps the sanitized copy of each
  item that is valid.  \<open>nowAt i\<close> gives the two values that \<open>new Date().toISOString()\<close>
  returns while item \<open>i\<close> is validated.
\<close>

fun validateItems ::
  "(jsstring \<Rightarrow> int option) \<Rightarrow> (nat \<Rightarrow> jsstring \<times> jsstring) \<Rightarrow> todo list \<Rightarrow> nat
     \<Rightarrow> verror list \<times> todo list" where
  "validateItems parseDate nowAt [] index = ([], [])"
| "validateItems parseDate nowAt (t # ts) index =
     (let validation = validateTodoData parseDate (fst (nowAt index)) (snd (nowAt index)) t;
          rest = validateItems parseDate nowAt ts (Suc index)
      in if isValid validation then (fst rest, sanitizedTodo validation # snd rest)
         else (ItemInvalid (index + 1) (errors validation) # fst rest, snd rest))"

definition validateTodoArray ::
  "(jsstring \<Rightarrow> int option) \<Rightarrow> (nat \<Rightarrow> jsstring \<times> jsstring) \<Rightarrow> todo list \<Rightarrow> arrayValidation" where
  "validateTodoArray parseDate nowAt ts =
     (let es = duplicateScan ts 0 Map.empty;
          items = validateItems parseDate nowAt ts 0;
          es = es @ fst items
      in \<lparr>isValid = (es = []), errors = es, validTodos = snd items\<rparr>)"

text \<open>
  \<open>createValidTodo\<close>.  \<open>now\<close> is the value of \<open>new Date().toISOString()\<close> and \<open>newId\<close> the
  value of \<open>generateId()\<close>, which is built from the clock and \<open>Math.random()\<close>.
\<close>

definition createValidTodo :: "jsstring \<Rightarrow> jsstring \<Rightarrow> jsstring \<Rightarrow> createResult" where
  "createValidTodo now newId t =
     (let textValidation = validateTodoText t
      in if \<not> isValid textValidation
         then \<lparr>isValid = False, errors = errors textValidation, newTodo = None\<rparr>
         else \<lparr>isValid = True, errors = [],
               newTodo = Some \<lparr>id' = newId, text' = sanitizedText textValidation,
                               completed = False, createdAt = now, updatedAt = now\<rparr>\<rparr>)"

text \<open>
  \<open>validateUpdates\<close>.  The update object is the list of its own properties in the order
  \<open>for ... in\<close> visits them: a text, a completion flag, or a property of another name.
\<close>

datatype updateField = UText jsstring | UCompleted bool | UOther string

record sanitizedUpdates =
  newText :: "jsstring option"
  newCompleted :: "bool option"
  newUpdatedAt :: "jsstring option"

record updatesValidation = validation +
  sanitized :: sanitizedUpdates

fun validateFields :: "updateField list \<Rightarrow> verror list \<times> sanitizedUpdates
                         \<Rightarrow> verror list \<times> sanitizedUpdates" where
  "validateFields [] acc = acc"
| "validateFields (UOther name # fs) (es, su) = validateFields fs (es @ [FieldNotAllowed name], su)"
| "validateFields (UText t # fs) (es, su) =
     (let textValidation = validateTodoText t
      in if \<not> isValid textValidation then validateFields fs (es @ errors textValidation, su)
         else validateFields fs (es, su\<lparr>newText := Some (sanitizedText textValidation)\<rparr>))"
| "validateFields (UCompleted c # fs) (es, su) =
     (let completedValidation = validateCompleted c
      in if \<not> isValid completedValidation then validateFields fs (es @ errors completedValidation, su)
         else validateFields fs (es, su\<lparr>newCompleted := Some c\<rparr>))"

definition validateUpdates :: "jsstring \<Rightarrow> updateField list \<Rightarrow> updatesValidation" where
  "validateUpdates now updates =
     (let r = validateFields updates ([], \<lparr>newText = None, newCompleted = None, newUpdatedAt = None\<rparr>);
          su = snd r;
          su = (if newText su \<noteq> None \<or> newCompleted su \<noteq> None then su\<lparr>newUpdatedAt := Some now\<rparr> else su)
      in \<lparr>isValid = (fst r = []), errors = fst r, sanitized = su\<rparr>)"

section \<open>StorageManager\<close>

text \<open>
  The storage holds one JSON envelope under one key.  Of the envelope the model keeps the
  \<open>todos\<close> array, as the list of values that \<open>JSON.stringify\<close> wrote; \<open>None\<close> stands for a
  key that is absent, a text that does not parse, and an envelope without a \<open>todos\<close> array,
  which \<open>loadTodos\<close> all answers with the empty list.  \<open>version\<close> and \<open>lastSync\<close> are never
  read by the manager and are left out.  \<open>writes\<close> counts the calls of \<open>save\<close>.
\<close>

record storageManager =
  stored :: "todo list option"
  writes :: nat

text \<open>
  \<open>saveTodos\<close> and \<open>save\<close>.  Whether the write goes through (\<open>localStorage.setItem\<close> may
  throw, on a full quota for one) is the input \<open>ok\<close>; \<open>save\<close> catches the exception and
  returns \<open>false\<close>.
\<close>

definition storageSaveTodos :: "bool \<Rightarrow> todo list \<Rightarrow> storageManager \<Rightarrow> bool \<times> storageManager" where
  "storageSaveTodos ok ts st =
     (ok, st\<lparr>stored := (if ok then Some ts else stored st), writes := Suc (writes st)\<rparr>)"

text \<open>
  \<open>loadTodos\<close> of the storage gives every stored item its missing fields.  \<open>defaultsAt i\<close>
  holds the values that \<open>generateId()\<close> and the two \<open>new Date().toISOString()\<close> return while
  item \<open>i\<close> is mapped.
\<close>

definition withDefaults :: "jsstring \<times> jsstring \<times> jsstring \<Rightarrow> todo \<Rightarrow> todo" where
  "withDefaults d t =
     \<lparr>id' = (if id' t = [] then fst d else id' t),
      text' = (if text' t = [] then [] else text' t),
      completed = (if completed t then completed t else False),
      createdAt = (if createdAt t = [] then fst (snd d) else createdAt t),
      updatedAt = (if updatedAt t = [] then snd (snd d) else updatedAt t)\<rparr>"

definition storageLoadTodos ::
  "(nat \<Rightarrow> jsstring \<times> jsstring \<times> jsstring) \<Rightarrow> storageManager \<Rightarrow> todo list" where
  "storageLoadTodos defaultsAt st =
     (case stored st of
        None \<Rightarrow> []
      | Some ts \<Rightarrow> map (\<lambda>(i, t). withDefaults (defaultsAt i) t) (enumerate 0 ts))"

text \<open>
  A JSON text is represented by what \<open>JSON.parse\<close> makes of it: nothing (\<open>NotJson\<close>, the
  parser throws), or an envelope whose \<open>todos\<close> is an array of items (\<open>Some\<close>) or is not
  (\<open>None\<close>).  \<open>JSON.stringify\<close> followed by \<open>JSON.parse\<close> gives back strings and booleans
  as they were.
\<close>

datatype snapshot = NotJson | Envelope "todo list option"

definition storageExportData ::
  "(nat \<Rightarrow> jsstring \<times> jsstring \<times> jsstring) \<Rightarrow> storageManager \<Rightarrow> snapshot" where
  "storageExportData defaultsAt st = Envelope (Some (storageLoadTodos defaultsAt st))"

definition storageImportData :: "bool \<Rightarrow> snapshot \<Rightarrow> storageManager \<Rightarrow> bool \<times> storageManager" where
  "storageImportData ok jsonData st =
     (case jsonData of
        NotJson \<Rightarrow> (False, st)
      | Envelope None \<Rightarrow> (False, st)
      | Envelope (Some ts) \<Rightarrow>
          if list_ex (\<lambda>t. text' t = []) ts then (False, st) else storageSaveTodos ok ts st)"

section \<open>TodoManager\<close>

text \<open>
  The manager's array \<open>todos\<close> holds references to objects, and \<open>toggleTodo\<close>,
  \<open>updateTodo\<close> and \<open>batchOperation\<close> change the objects in place, so the state has an
  explicit store: \<open>todos\<close> is a list of addresses and \<open>objects\<close> maps an address to the
  object there.  \<open>nextRef\<close> is the first address not yet given out.  \<open>emitted\<close> is the trace
  of the calls of \<open>emit\<close>, oldest first; the listeners only observe.
\<close>

type_synonym ref = nat

datatype event =
    Initialized
  | TodosLoaded
  | TodosSaved
  | DataImported
  | ValidationError string "verror list"
  | NotFound string jsstring
  | TodoAdded ref
  | TodoToggled ref
  | TodoDeleted ref
  | TodoUpdated ref
  | AllTodosCleared "ref list"
  | BatchOperation string nat "todo list"
  | Error string string

record todoManager =
  storage :: storageManager
  todos :: "ref list"
  objects :: "ref \<Rightarrow> todo"
  nextRef :: ref
  initialized :: bool
  emitted :: "event list"

definition emit :: "event \<Rightarrow> todoManager \<Rightarrow> todoManager" where
  "emit e m = m\<lparr>emitted := emitted m @ [e]\<rparr>"

text \<open>A new object: \<open>{ ... }\<close>.\<close>

definition alloc :: "todo \<Rightarrow> todoManager \<Rightarrow> ref \<times> todoManager" where
  "alloc v m = (nextRef m, m\<lparr>objects := (objects m)(nextRef m := v), nextRef := Suc (nextRef m)\<rparr>)"

fun allocAll :: "todo list \<Rightarrow> todoManager \<Rightarrow> ref list \<times> todoManager" where
  "allocAll [] m = ([], m)"
| "allocAll (v # vs) m =
     (let (r, m1) = alloc v m; (rs, m2) = allocAll vs m1 in (r # rs, m2))"

text \<open>
  \<open>getAllTodos\<close> returns a copy of the array of references; \<open>contents\<close> is what a reader of
  that array sees, the objects field by field.
\<close>

definition getAllTodos :: "todoManager \<Rightarrow> ref list" where
  "getAllTodos m = todos m"

definition contents :: "todoManager \<Rightarrow> todo list" where
  "contents m = map (objects m) (getAllTodos m)"

text \<open>\<open>this.todos.find(t => t.id === id)\<close> and \<open>findIndex\<close>.\<close>

definition findById :: "todoManager \<Rightarrow> jsstring \<Rightarrow> ref option" where
  "findById m i = find (\<lambda>r. id' (objects m r) = i) (todos m)"

fun findIndex :: "('a \<Rightarrow> bool) \<Rightarrow> 'a list \<Rightarrow> nat option" where
  "findIndex P [] = None"
| "findIndex P (x # xs) = (if P x then Some 0 else map_option Suc (findIndex P xs))"

text \<open>\<open>splice(index, 1)\<close> and \<open>splice(index, 0, x)\<close>.\<close>

definition spliceOut :: "nat \<Rightarrow> 'a list \<Rightarrow> 'a list" where
  "spliceOut i xs = take i xs @ drop (Suc i) xs"

definition spliceIn :: "nat \<Rightarrow> 'a \<Rightarrow> 'a list \<Rightarrow> 'a list" where
  "spliceIn i x xs = take i xs @ x # drop i xs"

text \<open>
  \<open>saveTodos\<close> of the manager writes the objects as they are at that moment and emits
  \<open>todos-saved\<close> when the write went through.
\<close>

definition saveTodos :: "bool \<Rightarrow> todoManager \<Rightarrow> bool \<times> todoManager" where
  "saveTodos ok m =
     (let (success, st) = storageSaveTodos ok (map (objects m) (todos m)) (storage m);
          m = m\<lparr>storage := st\<rparr>
      in (success, if success then emit TodosSaved m else m))"

definition addTodo :: "bool \<Rightarrow> jsstring \<Rightarrow> jsstring \<Rightarrow> jsstring \<Rightarrow> todoManager
                         \<Rightarrow> ref option \<times> todoManager" where
  "addTodo ok now newId t m =
     (if \<not> initialized m then (None, m)
      else let result = createValidTodo now newId t
           in case newTodo result of
                None \<Rightarrow> (None, emit (ValidationError ''add'' (errors result)) m)
              | Some v \<Rightarrow>
                  let (r, m) = alloc v m;
                      m = m\<lparr>todos := r # todos m\<rparr>;
                      (saved, m) = saveTodos ok m
                  in if saved then (Some r, emit (TodoAdded r) m)
                     else (None, emit (Error ''save'' ''add'') (m\<lparr>todos := tl (todos m)\<rparr>)))"

definition toggleTodo :: "bool \<Rightarrow> jsstring \<Rightarrow> jsstring \<Rightarrow> todoManager \<Rightarrow> bool \<times> todoManager" where
  "toggleTodo ok now i m =
     (if \<not> initialized m then (False, m)
      else case findById m i of
             None \<Rightarrow> (False, emit (NotFound ''toggle'' i) m)
           | Some r \<Rightarrow>
               let m = m\<lparr>objects := (objects m)(r := (objects m r)\<lparr>completed := \<not> completed (objects m r)\<rparr>)\<rparr>;
                   m = m\<lparr>objects := (objects m)(r := (objects m r)\<lparr>updatedAt := now\<rparr>)\<rparr>;
                   (saved, m) = saveTodos ok m
               in if saved then (True, emit (TodoToggled r) m)
                  else let m = m\<lparr>objects := (objects m)(r := (objects m r)\<lparr>completed := \<not> completed (objects m r)\<rparr>)\<rparr>
                       in (False, emit (Error ''save'' ''toggle'') m))"

definition deleteTodo :: "bool \<Rightarrow> jsstring \<Rightarrow> todoManager \<Rightarrow> bool \<times> todoManager" where
  "deleteTodo ok i m =
     (if \<not> initialized m then (False, m)
      else case findIndex (\<lambda>r. id' (objects m r) = i) (todos m) of
             None \<Rightarrow> (False, emit (NotFound ''delete'' i) m)
           | Some index \<Rightarrow>
               let deletedTodo = todos m ! index;
                   m = m\<lparr>todos := spliceOut index (todos m)\<rparr>;
                   (saved, m) = saveTodos ok m
               in if saved then (True, emit (TodoDeleted deletedTodo) m)
                  else (False, emit (Error ''save'' ''delete'')
                                 (m\<lparr>todos := spliceIn index deletedTodo (todos m)\<rparr>)))"

text \<open>
  \<open>updateTodo\<close>.  \<open>originalTodo\<close> is a copy of the object's fields;
  \<open>Object.assign\<close> writes the fields that the sanitized update has.
\<close>

definition assignUpdates :: "sanitizedUpdates \<Rightarrow> todo \<Rightarrow> todo" where
  "assignUpdates su v =
     (let v = (case newText su of Some t \<Rightarrow> v\<lparr>text' := t\<rparr> | None \<Rightarrow> v);
          v = (case newCompleted su of Some c \<Rightarrow> v\<lparr>completed := c\<rparr> | None \<Rightarrow> v);
          v = (case newUpdatedAt su of Some u \<Rightarrow> v\<lparr>updatedAt := u\<rparr> | None \<Rightarrow> v)
      in v)"

definition updateTodo :: "bool \<Rightarrow> jsstring \<Rightarrow> jsstring \<Rightarrow> updateField list \<Rightarrow> todoManager
                            \<Rightarrow> bool \<times> todoManager" where
  "updateTodo ok now i updates m =
     (if \<not> initialized m then (False, m)
      else case findById m i of
             None \<Rightarrow> (False, emit (NotFound ''update'' i) m)
           | Some r \<Rightarrow>
               let validation = validateUpdates now updates
               in if \<not> isValid validation
                  then (False, emit (ValidationError ''update'' (errors validation)) m)
                  else let originalTodo = objects m r;
                           m = m\<lparr>objects := (objects m)(r := assignUpdates (sanitized validation) (objects m r))\<rparr>;
                           (saved, m) = saveTodos ok m
                       in if saved then (True, emit (TodoUpdated r) m)
                          else (False, emit (Error ''save'' ''update'')
                                         (m\<lparr>objects := (objects m)(r := originalTodo)\<rparr>)))"

definition clearAllTodos :: "bool \<Rightarrow> todoManager \<Rightarrow> bool \<times> todoManager" where
  "clearAllTodos ok m =
     (if \<not> initialized m then (False, m)
      else let clearedTodos = todos m;
               m = m\<lparr>todos := []\<rparr>;
               (saved, m) = saveTodos ok m
           in if saved then (True, emit (AllTodosCleared clearedTodos) m)
              else (False, emit (Error ''save'' ''clear'') (m\<lparr>todos := clearedTodos\<rparr>)))"

text \<open>
  The loop of \<open>batchOperation\<close> over the IDs.  \<open>clock k\<close> is the value of
  \<open>new Date().toISOString()\<close> in round \<open>k\<close>.  The state of the loop is the manager, the
  counter \<open>processed\<close> and the copies \<open>affectedTodos\<close>.
\<close>

fun batchLoop :: "string \<Rightarrow> (nat \<Rightarrow> jsstring) \<Rightarrow> nat \<Rightarrow> jsstring list
                    \<Rightarrow> todoManager \<times> nat \<times> todo list \<Rightarrow> todoManager \<times> nat \<times> todo list" where
  "batchLoop action clock k [] acc = acc"
| "batchLoop action clock k (i # ids) (m, processed, affectedTodos) =
     (case findById m i of
        None \<Rightarrow> batchLoop action clock (Suc k) ids (m, processed, affectedTodos)
      | Some r \<Rightarrow>
          let affectedTodos = affectedTodos @ [objects m r]
          in if action = ''complete'' then
               (if \<not> completed (objects m r)
                then let m = m\<lparr>objects := (objects m)(r := (objects m r)\<lparr>completed := True\<rparr>)\<rparr>;
                         m = m\<lparr>objects := (objects m)(r := (objects m r)\<lparr>updatedAt := clock k\<rparr>)\<rparr>
                     in batchLoop action clock (Suc k) ids (m, processed + 1, affectedTodos)
                else batchLoop action clock (Suc k) ids (m, processed, affectedTodos))
             else if action = ''incomplete'' then
               (if completed (objects m r)
                then let m = m\<lparr>objects := (objects m)(r := (objects m r)\<lparr>completed := False\<rparr>)\<rparr>;
                         m = m\<lparr>objects := (objects m)(r := (objects m r)\<lparr>updatedAt := clock k\<rparr>)\<rparr>
                     in batchLoop action clock (Suc k) ids (m, processed + 1, affectedTodos)
                else batchLoop action clock (Suc k) ids (m, processed, affectedTodos))
             else if action = ''delete'' then
               (case findIndex (\<lambda>r. id' (objects m r) = i) (todos m) of
                  Some index \<Rightarrow>
                    batchLoop action clock (Suc k) ids
                      (m\<lparr>todos := spliceOut index (todos m)\<rparr>, processed + 1, affectedTodos)
                | None \<Rightarrow> batchLoop action clock (Suc k) ids (m, processed, affectedTodos))
             else batchLoop action clock (Suc k) ids (m, processed, affectedTodos))"

text \<open>
  \<open>batchOperation\<close> returns \<open>{success, processed}\<close>, here a pair.  \<open>originalTodos\<close> is
  \<open>[...this.todos]\<close>: a copy of the array of references, not of the objects.
\<close>

definition batchOperation :: "bool \<Rightarrow> (nat \<Rightarrow> jsstring) \<Rightarrow> jsstring list \<Rightarrow> string \<Rightarrow> todoManager
                                \<Rightarrow> (bool \<times> nat) \<times> todoManager" where
  "batchOperation ok clock ids action m =
     (if \<not> initialized m then ((False, 0), m)
      else if ids = [] then ((False, 0), m)
      else if action \<notin> set [''complete'', ''incomplete'', ''delete''] then ((False, 0), m)
      else let originalTodos = todos m;
               (m, processed, affectedTodos) = batchLoop action clock 0 ids (m, 0, []);
               (saved, m) = (if processed > 0 then saveTodos ok m else (False, m))
           in if saved then ((True, processed), emit (BatchOperation action processed affectedTodos) m)
              else ((False, 0), emit (Error ''save'' ''batch'') (m\<lparr>todos := originalTodos\<rparr>)))"

text \<open>
  \<open>loadTodos\<close> of the manager.  Both branches of its test of \<open>validation.isValid\<close> assign
  \<open>validation.validTodos\<close>, new objects.  \<open>Array.prototype.sort\<close> is stable, and its
  comparator \<open>new Date(b.createdAt) - new Date(a.createdAt)\<close> orders by the parsed date,
  latest first.  Every valid item has a date that parses (\<open>validateTimestamp\<close>), so the
  value of \<open>dateKey\<close> at a date that does not parse is never used.  On stored items whose
  fields are strings and a boolean nothing on this path throws, so the \<open>catch\<close> of the
  source has no branch here; \<open>loadTodosAny\<close> below is the same function on entries of any
  type, with the \<open>catch\<close>.
\<close>

definition dateKey :: "(jsstring \<Rightarrow> int option) \<Rightarrow> todo \<Rightarrow> int" where
  "dateKey parseDate v = (case parseDate (createdAt v) of Some ms \<Rightarrow> ms | None \<Rightarrow> 0)"

definition loadTodos ::
  "(jsstring \<Rightarrow> int option) \<Rightarrow> (nat \<Rightarrow> jsstring \<times> jsstring \<times> jsstring) \<Rightarrow> (nat \<Rightarrow> jsstring \<times> jsstring)
     \<Rightarrow> todoManager \<Rightarrow> bool \<times> todoManager" where
  "loadTodos parseDate defaultsAt nowAt m =
     (let data = storageLoadTodos defaultsAt (storage m);
          validation = validateTodoArray parseDate nowAt data;
          (rs, m) = allocAll (validTodos validation) m;
          m = m\<lparr>todos := rs\<rparr>;
          m = m\<lparr>todos := sort_key (\<lambda>r. - dateKey parseDate (objects m r)) (todos m)\<rparr>
      in (True, emit TodosLoaded m))"

definition initialize ::
  "(jsstring \<Rightarrow> int option) \<Rightarrow> (nat \<Rightarrow> jsstring \<times> jsstring \<times> jsstring) \<Rightarrow> (nat \<Rightarrow> jsstring \<times> jsstring)
     \<Rightarrow> todoManager \<Rightarrow> bool \<times> todoManager" where
  "initialize parseDate defaultsAt nowAt m =
     (let (loaded, m) = loadTodos parseDate defaultsAt nowAt m;
          m = m\<lparr>initialized := True\<rparr>
      in (True, emit Initialized m))"

definition exportData :: "(nat \<Rightarrow> jsstring \<times> jsstring \<times> jsstring) \<Rightarrow> todoManager \<Rightarrow> snapshot" where
  "exportData defaultsAt m = storageExportData defaultsAt (storage m)"

definition importData ::
  "bool \<Rightarrow> (jsstring \<Rightarrow> int option) \<Rightarrow> (nat \<Rightarrow> jsstring \<times> jsstring \<times> jsstring) \<Rightarrow> (nat \<Rightarrow> jsstring \<times> jsstring)
     \<Rightarrow> snapshot \<Rightarrow> todoManager \<Rightarrow> bool \<times> todoManager" where
  "importData ok parseDate defaultsAt nowAt jsonData m =
     (let (success, st) = storageImportData ok jsonData (storage m);
          m = m\<lparr>storage := st\<rparr>
      in if success
         then let (loaded, m) = loadTodos parseDate defaultsAt nowAt m in (True, emit DataImported m)
         else (False, m))"

text \<open>
  The manager as the constructor leaves it, over a given storage.  No address has been
  given out; \<open>blankObjects\<close> fills the store at the addresses not yet in use.
\<close>

definition blankObjects :: "ref \<Rightarrow> todo" where
  "blankObjects = (\<lambda>r. \<lparr>id' = [], text' = [], completed = False, createdAt = [], updatedAt = []\<rparr>)"

definition newTodoManager :: "storageManager \<Rightarrow> todoManager" where
  "newTodoManager st =
     \<lparr>storage = st, todos = [], objects = blankObjects, nextRef = 0, initialized = False,
      emitted = []\<rparr>"

subsection \<open>Queries\<close>

definition getCompletedTodos :: "todoManager \<Rightarrow> ref list" where
  "getCompletedTodos m = filter (\<lambda>r. completed (objects m r)) (todos m)"

definition getPendingTodos :: "todoManager \<Rightarrow> ref list" where
  "getPendingTodos m = filter (\<lambda>r. \<not> completed (objects m r)) (todos m)"

text \<open>\<open>s.includes(sub)\<close> (the name is taken in Isabelle, hence the prime): \<open>sub\<close> occurs in \<open>s\<close> as a run of consecutive code units.\<close>

fun includes' :: "jsstring \<Rightarrow> jsstring \<Rightarrow> bool" where
  "includes' [] sub = (sub = [])"
| "includes' (c # cs) sub = (take (length sub) (c # cs) = sub \<or> includes' cs sub)"

text \<open>
  \<open>searchTodos\<close>.  The query is \<open>Some\<close> string, or \<open>None\<close> for a value that is not a
  string.  \<open>String.prototype.toLowerCase\<close> follows the Unicode case mappings; it is the
  parameter \<open>toLowerCase\<close>.
\<close>

definition searchTodos :: "(jsstring \<Rightarrow> jsstring) \<Rightarrow> jsstring option \<Rightarrow> todoManager \<Rightarrow> ref list" where
  "searchTodos toLowerCase query m =
     (case query of
        None \<Rightarrow> []
      | Some q \<Rightarrow>
          if q = [] then []
          else let searchTerm = trim (toLowerCase q)
               in filter (\<lambda>r. includes' (toLowerCase (text' (objects m r))) searchTerm) (todos m))"

subsection \<open>Numbers and statistics\<close>

text \<open>
  A JavaScript number is an IEEE 754 binary64 value, and \<open>/\<close> and \<open>*\<close> return the exact
  result rounded to the nearest such value, ties to the even significand.  \<open>getStats\<close>
  works with numbers from 0 to 100 that are 0 or at least \<open>2^-32\<close> (an array has fewer than
  \<open>2^32\<close> elements), far from overflow and from the subnormal range.  There a number is the
  rational it denotes, and \<open>toDouble\<close> rounds a rational to 53 significant bits:
  \<open>binaryExponent\<close> finds the power of two at or below the absolute value (the fuel 1100
  covers the exponents of the normal range), and the quotient by the unit in the last
  place is rounded to an integer.
\<close>

fun binaryExponent :: "nat \<Rightarrow> rat \<Rightarrow> int" where
  "binaryExponent 0 x = 0"
| "binaryExponent (Suc n) x =
     (if 2 \<le> x then binaryExponent n (x / 2) + 1
      else if x < 1 then binaryExponent n (x * 2) - 1
      else 0)"

definition pow2 :: "int \<Rightarrow> rat" where
  "pow2 e = (if 0 \<le> e then 2 ^ nat e else 1 / 2 ^ nat (- e))"

definition roundTiesToEven :: "rat \<Rightarrow> int" where
  "roundTiesToEven x =
     (let n = \<lfloor>x\<rfloor>; f = x - of_int n
      in if f < 1 / 2 then n else if 1 / 2 < f then n + 1 else if even n then n else n + 1)"

definition toDouble :: "rat \<Rightarrow> rat" where
  "toDouble x =
     (if x = 0 then 0
      else let e = binaryExponent 1100 \<bar>x\<bar>; ulp = pow2 (e - 52)
           in of_int (roundTiesToEven (x / ulp)) * ulp)"

text \<open>
  \<open>Math.round\<close> returns the nearest integer, the larger one at a tie; the result is exact.
\<close>

definition mathRound :: "rat \<Rightarrow> rat" where
  "mathRound x = of_int \<lfloor>x + 1 / 2\<rfloor>"

text \<open>
  \<open>getStats\<close>.  The field \<open>completed\<close> of the result carries a prime, the name being a
  field of the todo item already.
\<close>

record stats =
  total :: nat
  completed' :: nat
  pending :: nat
  completionRate :: rat

definition getStats :: "todoManager \<Rightarrow> stats" where
  "getStats m =
     (let total = length (todos m);
          completed = length (getCompletedTodos m);
          pending = length (getPendingTodos m);
          completionRate = (if total > 0 then toDouble (of_nat completed / of_nat total) else 0)
      in \<lparr>total = total, completed' = completed, pending = pending,
          completionRate = toDouble (mathRound (toDouble (completionRate * 100)) / 100)\<rparr>)"

section \<open>Stored entries of any type\<close>

text \<open>
  The storage is outside the program: the array under the key can hold any JSON value,
  and \<open>importData\<close> writes entries of which it has only checked the text.  The functions of
  the load path are therefore given a second time, on entries of any type; the
  definitions above are these functions on the values the application itself writes (the
  lemmas \<open>loadTodosAny_typed\<close> and those before it).

  A value is \<open>undefined\<close> (a property that is absent), \<open>null\<close>, a boolean, a number, a
  string, or an array or object.  An entry is \<open>null\<close>, or it is read as an object with the
  five properties: a number, a boolean, a string and an array have none of them.
\<close>

datatype jsval = JUndefined | JNull | JBool bool | JNum rat | JStr jsstring | JObject

fun truthy :: "jsval \<Rightarrow> bool" where
  "truthy JUndefined = False"
| "truthy JNull = False"
| "truthy (JBool b) = b"
| "truthy (JNum n) = (n \<noteq> 0)"
| "truthy (JStr s) = (s \<noteq> [])"
| "truthy JObject = True"

record rawTodo =
  rawId :: jsval
  rawText :: jsval
  rawCompleted :: jsval
  rawCreatedAt :: jsval
  rawUpdatedAt :: jsval

datatype entry = NullEntry | Fields rawTodo

text \<open>The only exception of the load path: a property or method of a value that has none.\<close>

datatype exception = TypeError

text \<open>What \<open>JSON.stringify\<close> writes for a todo item, and the item of a well-typed object.\<close>

definition ofTodo :: "todo \<Rightarrow> rawTodo" where
  "ofTodo t = \<lparr>rawId = JStr (id' t), rawText = JStr (text' t), rawCompleted = JBool (completed t),
              rawCreatedAt = JStr (createdAt t), rawUpdatedAt = JStr (updatedAt t)\<rparr>"

fun stringOf :: "jsval \<Rightarrow> jsstring" where
  "stringOf (JStr s) = s"
| "stringOf v = []"

fun boolOf :: "jsval \<Rightarrow> bool" where
  "boolOf (JBool b) = b"
| "boolOf v = False"

definition toTodo :: "rawTodo \<Rightarrow> todo" where
  "toTodo r = \<lparr>id' = stringOf (rawId r), text' = stringOf (rawText r),
              completed = boolOf (rawCompleted r), createdAt = stringOf (rawCreatedAt r),
              updatedAt = stringOf (rawUpdatedAt r)\<rparr>"

text \<open>
  \<open>loadTodos\<close> of the storage: \<open>todo.id || ...\<close> keeps a truthy value of any type, and
  reading a property of \<open>null\<close> throws.
\<close>

definition withDefaultsAny :: "jsstring \<times> jsstring \<times> jsstring \<Rightarrow> rawTodo \<Rightarrow> rawTodo" where
  "withDefaultsAny d r =
     \<lparr>rawId = (if truthy (rawId r) then rawId r else JStr (fst d)),
      rawText = (if truthy (rawText r) then rawText r else JStr []),
      rawCompleted = (if truthy (rawCompleted r) then rawCompleted r else JBool False),
      rawCreatedAt = (if truthy (rawCreatedAt r) then rawCreatedAt r else JStr (fst (snd d))),
      rawUpdatedAt = (if truthy (rawUpdatedAt r) then rawUpdatedAt r else JStr (snd (snd d)))\<rparr>"

fun withDefaultsAll :: "(nat \<Rightarrow> jsstring \<times> jsstring \<times> jsstring) \<Rightarrow> nat \<Rightarrow> entry list
                          \<Rightarrow> exception + rawTodo list" where
  "withDefaultsAll defaultsAt index [] = Inr []"
| "withDefaultsAll defaultsAt index (NullEntry # es) = Inl TypeError"
| "withDefaultsAll defaultsAt index (Fields r # es) =
     (case withDefaultsAll defaultsAt (Suc index) es of
        Inl e \<Rightarrow> Inl e
      | Inr rs \<Rightarrow> Inr (withDefaultsAny (defaultsAt index) r # rs))"

definition storageLoadTodosAny ::
  "(nat \<Rightarrow> jsstring \<times> jsstring \<times> jsstring) \<Rightarrow> entry list option \<Rightarrow> exception + rawTodo list" where
  "storageLoadTodosAny defaultsAt held =
     (case held of None \<Rightarrow> Inr [] | Some es \<Rightarrow> withDefaultsAll defaultsAt 0 es)"

text \<open>
  The validator on any value.  A falsy value fails the first test and passes the others
  (\<open>text && ...\<close>); a string is validated as above; any other truthy value has no \<open>trim\<close>,
  and the call \<open>text.trim()\<close> of the first test throws.  \<open>validateCompleted\<close> reads no
  method and never throws.
\<close>

definition validateTodoTextAny :: "jsval \<Rightarrow> exception + textValidation" where
  "validateTodoTextAny v =
     (if \<not> truthy v then Inr \<lparr>isValid = False, errors = [EmptyText], sanitizedText = []\<rparr>
      else case v of JStr s \<Rightarrow> Inr (validateTodoText s) | _ \<Rightarrow> Inl TypeError)"

definition validateTodoIdAny :: "jsval \<Rightarrow> exception + validation" where
  "validateTodoIdAny v =
     (if \<not> truthy v then Inr \<lparr>isValid = False, errors = [EmptyId]\<rparr>
      else case v of JStr s \<Rightarrow> Inr (validateTodoId s) | _ \<Rightarrow> Inl TypeError)"

definition validateCompletedAny :: "jsval \<Rightarrow> validation" where
  "validateCompletedAny v =
     (let es = [];
          es = (if v = JUndefined then es @ [CompletedMissing] else es);
          es = (if v \<noteq> JUndefined \<and> (case v of JBool b \<Rightarrow> False | _ \<Rightarrow> True)
                then es @ [CompletedNotBoolean] else es)
      in \<lparr>isValid = (es = []), errors = es\<rparr>)"

definition validateTimestampAny ::
  "(jsstring \<Rightarrow> int option) \<Rightarrow> jsval \<Rightarrow> string \<Rightarrow> exception + validation" where
  "validateTimestampAny parseDate v fieldName =
     (if \<not> truthy v then Inr \<lparr>isValid = False, errors = [TimestampEmpty fieldName]\<rparr>
      else case v of JStr s \<Rightarrow> Inr (validateTimestamp parseDate s fieldName) | _ \<Rightarrow> Inl TypeError)"

record rawValidation = validation +
  sanitizedRaw :: rawTodo

record rawArrayValidation = validation +
  validRaw :: "rawTodo list"

text \<open>
  \<open>validateTodoData\<close> on an object: the five validations in the order of the source, the
  first exception ending the call.
\<close>

definition validateTodoDataAny ::
  "(jsstring \<Rightarrow> int option) \<Rightarrow> jsstring \<Rightarrow> jsstring \<Rightarrow> rawTodo \<Rightarrow> exception + rawValidation" where
  "validateTodoDataAny parseDate now1 now2 r =
     (case validateTodoTextAny (rawText r) of
        Inl e \<Rightarrow> Inl e
      | Inr textValidation \<Rightarrow>
     (case validateTodoIdAny (rawId r) of
        Inl e \<Rightarrow> Inl e
      | Inr idValidation \<Rightarrow>
     (case validateTimestampAny parseDate (rawCreatedAt r) ''createdAt'' of
        Inl e \<Rightarrow> Inl e
      | Inr createdValidation \<Rightarrow>
     (case validateTimestampAny parseDate (rawUpdatedAt r) ''updatedAt'' of
        Inl e \<Rightarrow> Inl e
      | Inr updatedValidation \<Rightarrow>
          let es = (if \<not> isValid textValidation then errors textValidation else []);
              es = (if \<not> isValid idValidation then es @ errors idValidation else es);
              completedValidation = validateCompletedAny (rawCompleted r);
              es = (if \<not> isValid completedValidation then es @ errors completedValidation else es);
              es = (if \<not> isValid createdValidation then es @ errors createdValidation else es);
              es = (if \<not> isValid updatedValidation then es @ errors updatedValidation else es)
          in Inr \<lparr>isValid = (es = []), errors = es,
                  sanitizedRaw =
                    \<lparr>rawId = rawId r, rawText = JStr (sanitizedText textValidation),
                     rawCompleted = (if truthy (rawCompleted r) then rawCompleted r else JBool False),
                     rawCreatedAt = (if truthy (rawCreatedAt r) then rawCreatedAt r else JStr now1),
                     rawUpdatedAt = (if truthy (rawUpdatedAt r) then rawUpdatedAt r
                                     else JStr now2)\<rparr>\<rparr>))))"

text \<open>
  \<open>validateTodoArray\<close> on objects.  The first loop is \<open>duplicateScan\<close> on the IDs that are
  strings.  A falsy ID is passed over, as in the source; a truthy ID that is not a string
  is passed over too: \<open>validateTodoId\<close> throws for its entry in the second loop, and with
  the exception the messages of the first loop are gone.
\<close>

fun duplicateScanAny :: "rawTodo list \<Rightarrow> nat \<Rightarrow> (jsstring \<rightharpoonup> nat) \<Rightarrow> verror list" where
  "duplicateScanAny [] index idMap = []"
| "duplicateScanAny (r # rs) index idMap =
     (case rawId r of
        JStr i \<Rightarrow>
          (if i = [] then duplicateScanAny rs (Suc index) idMap
           else case idMap i of
                  Some first \<Rightarrow> DuplicateId i first index # duplicateScanAny rs (Suc index) idMap
                | None \<Rightarrow> duplicateScanAny rs (Suc index) (idMap(i \<mapsto> index)))
      | _ \<Rightarrow> duplicateScanAny rs (Suc index) idMap)"

fun validateItemsAny ::
  "(jsstring \<Rightarrow> int option) \<Rightarrow> (nat \<Rightarrow> jsstring \<times> jsstring) \<Rightarrow> rawTodo list \<Rightarrow> nat
     \<Rightarrow> exception + verror list \<times> rawTodo list" where
  "validateItemsAny parseDate nowAt [] index = Inr ([], [])"
| "validateItemsAny parseDate nowAt (r # rs) index =
     (case validateTodoDataAny parseDate (fst (nowAt index)) (snd (nowAt index)) r of
        Inl e \<Rightarrow> Inl e
      | Inr validation \<Rightarrow>
          (case validateItemsAny parseDate nowAt rs (Suc index) of
             Inl e \<Rightarrow> Inl e
           | Inr rest \<Rightarrow>
               if isValid validation then Inr (fst rest, sanitizedRaw validation # snd rest)
               else Inr (ItemInvalid (index + 1) (errors validation) # fst rest, snd rest)))"

definition validateTodoArrayAny ::
  "(jsstring \<Rightarrow> int option) \<Rightarrow> (nat \<Rightarrow> jsstring \<times> jsstring) \<Rightarrow> rawTodo list
     \<Rightarrow> exception + rawArrayValidation" where
  "validateTodoArrayAny parseDate nowAt rs =
     (let es = duplicateScanAny rs 0 Map.empty
      in case validateItemsAny parseDate nowAt rs 0 of
           Inl e \<Rightarrow> Inl e
         | Inr items \<Rightarrow>
             let es = es @ fst items
             in Inr \<lparr>isValid = (es = []), errors = es, validRaw = snd items\<rparr>)"

text \<open>
  \<open>loadTodos\<close> of the manager with its \<open>catch\<close>: an exception of the storage's \<open>loadTodos\<close>
  or of \<open>validateTodoArray\<close> empties the list and emits the error of type \<open>load\<close> (it has no
  action, the second string), and the call returns \<open>false\<close>.  \<open>held\<close> is what the storage
  holds under the key.  \<open>initialize\<close> does not read the result of \<open>loadTodos\<close>.
\<close>

definition loadTodosAny ::
  "(jsstring \<Rightarrow> int option) \<Rightarrow> (nat \<Rightarrow> jsstring \<times> jsstring \<times> jsstring) \<Rightarrow> (nat \<Rightarrow> jsstring \<times> jsstring)
     \<Rightarrow> entry list option \<Rightarrow> todoManager \<Rightarrow> bool \<times> todoManager" where
  "loadTodosAny parseDate defaultsAt nowAt held m =
     (case storageLoadTodosAny defaultsAt held of
        Inl e \<Rightarrow> (False, emit (Error ''load'' []) (m\<lparr>todos := []\<rparr>))
      | Inr data \<Rightarrow>
          (case validateTodoArrayAny parseDate nowAt data of
             Inl e \<Rightarrow> (False, emit (Error ''load'' []) (m\<lparr>todos := []\<rparr>))
           | Inr validation \<Rightarrow>
               let (rs, m) = allocAll (map toTodo (validRaw validation)) m;
                   m = m\<lparr>todos := rs\<rparr>;
                   m = m\<lparr>todos := sort_key (\<lambda>r. - dateKey parseDate (objects m r)) (todos m)\<rparr>
               in (True, emit TodosLoaded m)))"

definition initializeAny ::
  "(jsstring \<Rightarrow> int option) \<Rightarrow> (nat \<Rightarrow> jsstring \<times> jsstring \<times> jsstring) \<Rightarrow> (nat \<Rightarrow> jsstring \<times> jsstring)
     \<Rightarrow> entry list option \<Rightarrow> todoManager \<Rightarrow> bool \<times> todoManager" where
  "initializeAny parseDate defaultsAt nowAt held m =
     (let (loaded, m) = loadTodosAny parseDate defaultsAt nowAt held m;
          m = m\<lparr>initialized := True\<rparr>
      in (True, emit Initialized m))"

section \<open>Conditions of the properties and sample states\<close>

text \<open>
  The array of a manager is well formed when every reference in it has been given out by
  \<open>alloc\<close> and no object is in it twice.
\<close>

definition wellFormed :: "todoManager \<Rightarrow> bool" where
  "wellFormed m = (list_all (\<lambda>r. r < nextRef m) (todos m) \<and> distinct (todos m))"

text \<open>
  A round of \<open>batchOperation\<close> changes nothing for an ID when no item has it, or when the
  item that \<open>find\<close> returns is in the state the action asks for.
\<close>

definition batchNoop :: "string \<Rightarrow> todoManager \<Rightarrow> jsstring \<Rightarrow> bool" where
  "batchNoop action m i =
     (case findById m i of
        None \<Rightarrow> True
      | Some r \<Rightarrow> (action = ''complete'' \<and> completed (objects m r))
                 \<or> (action = ''incomplete'' \<and> \<not> completed (objects m r)))"

text \<open>
  Sample inputs.  \<open>sampleParse\<close> agrees with \<open>Date\<close> on the two timestamps of the samples
  and knows no other; \<open>sampleDefaults\<close> and \<open>sampleNow\<close> are what the generator and the clock
  return during a load.
\<close>

definition time1 :: jsstring where "time1 = js ''2024-01-01T00:00:00.000Z''"
definition time2 :: jsstring where "time2 = js ''2024-01-02T00:00:00.000Z''"

definition sampleParse :: "jsstring \<Rightarrow> int option" where
  "sampleParse = map_of [(time1, 1704067200000), (time2, 1704153600000)]"

definition sampleDefaults :: "nat \<Rightarrow> jsstring \<times> jsstring \<times> jsstring" where
  "sampleDefaults i = (js ''lqu8h1c0abc'', time2, time2)"

definition sampleNow :: "nat \<Rightarrow> jsstring \<times> jsstring" where
  "sampleNow i = (time2, time2)"

definition emptyStorage :: storageManager where
  "emptyStorage = \<lparr>stored = None, writes = 0\<rparr>"

definition readyManager :: todoManager where
  "readyManager = snd (initialize sampleParse sampleDefaults sampleNow (newTodoManager emptyStorage))"

definition milkManager :: todoManager where
  "milkManager = snd (addTodo True time1 (js ''id1'') (js ''Buy milk'') readyManager)"

definition dogManager :: todoManager where
  "dogManager = snd (addTodo True time2 (js ''id2'') (js ''Walk dog'') milkManager)"

text \<open>The two items of the sample managers, as \<open>addTodo\<close> makes them.\<close>

definition milk :: todo where
  "milk = \<lparr>id' = js ''id1'', text' = js ''Buy milk'', completed = False,
            createdAt = time1, updatedAt = time1\<rparr>"

definition dog :: todo where
  "dog = \<lparr>id' = js ''id2'', text' = js ''Walk dog'', completed = False,
           createdAt = time2, updatedAt = time2\<rparr>"

text \<open>
  A record is valid on its own when \<open>validateTodoData\<close> accepts it; the verdict does not
  depend on the two clock values, which only fill the sanitized copy.
\<close>

definition validRecord :: "(jsstring \<Rightarrow> int option) \<Rightarrow> todo \<Rightarrow> bool" where
  "validRecord parseDate t = isValid (validateTodoData parseDate [] [] t)"

text \<open>A storage that holds the two items with the older one first.\<close>

definition oldFirstStorage :: storageManager where
  "oldFirstStorage = \<lparr>stored = Some [milk, dog], writes = 0\<rparr>"



text \<open>
  Three more managers: one item whose text has an ampersand; one item whose text is a
  single control character (BEL); and two items added while the clock was set back
  between the two calls.
\<close>

definition ampManager :: todoManager where
  "ampManager = snd (addTodo True time1 (js ''id1'') (js ''Tom & Jerry'') readyManager)"

definition bellManager :: todoManager where
  "bellManager = snd (addTodo True time1 (js ''id1'') [0x07] readyManager)"

definition backManager :: todoManager where
  "backManager = snd (addTodo True time1 (js ''id1'') (js ''Buy milk'')
                   (snd (addTodo True time2 (js ''id2'') (js ''Walk dog'') readyManager)))"

definition amp :: todo where
  "amp = \<lparr>id' = js ''id1'', text' = js ''Tom &amp; Jerry'', completed = False,
           createdAt = time1, updatedAt = time1\<rparr>"

definition bell :: todo where
  "bell = \<lparr>id' = js ''id1'', text' = [], completed = False, createdAt = time1, updatedAt = time1\<rparr>"

text \<open>A manager with 40 items, the first 23 of them completed.\<close>

definition statsManager :: todoManager where
  "statsManager =
     \<lparr>storage = emptyStorage, todos = [0..<40],
      objects = (\<lambda>r. \<lparr>id' = replicate (Suc r) 0x61, text' = js ''Buy milk'', completed = (r < 23),
                         createdAt = time1, updatedAt = time1\<rparr>),
      nextRef = 40, initialized = True, emitted = []\<rparr>"




text \<open>A text of 200 letters and a space after them.\<close>

definition paddedText :: jsstring where
  "paddedText = replicate 200 0x61 @ [0x20]"

section \<open>Properties of the validator\<close>

lemma trim_Nil: "trim [] = []"
  by (simp add: trim_def)

lemma trim_all_whitespace:
  assumes "list_all isWhiteSpace s"
  shows "trim s = []"
proof -
  have empty: "dropWhile isWhiteSpace s = []"
    using assms by (simp add: list_all_iff)
  show ?thesis unfolding trim_def empty by simp
qed

lemma textPattern_iff: "textPattern t \<longleftrightarrow> 0x3C \<notin> set t \<and> 0x3E \<notin> set t"
  by (auto simp: textPattern_def list_all_iff)

lemma validateTodoText_valid_iff:
  "isValid (validateTodoText t) \<longleftrightarrow>
     trim t \<noteq> [] \<and> length t \<le> 200 \<and> 0x3C \<notin> set t \<and> 0x3E \<notin> set t"
  by (auto simp: validateTodoText_def Let_def trim_Nil textPattern_iff minLength_def maxLength_def)

text \<open>
  C4, as stated, fails: the length that \<open>validateTodoText\<close> tests is the length of the text
  as given.  A text of 200 letters followed by one space is not blank, has 200 characters
  after trimming and has no angle bracket, and it is rejected.
\<close>

theorem validateTodoText_trimmed_length_counterexample:
  "trim paddedText \<noteq> [] \<and> 1 \<le> length (trim paddedText) \<and> length (trim paddedText) \<le> 200
   \<and> 0x3C \<notin> set paddedText \<and> 0x3E \<notin> set paddedText
   \<and> \<not> isValid (validateTodoText paddedText)"
  by code_simp

text \<open>
  C4, amended: \<open>validateTodoText\<close> rejects a string exactly when it is blank after
  trimming, or its length as given (before trimming) is more than 200, or it contains
  \<open><\<close> or \<open>>\<close>.
\<close>

theorem validateTodoText_rejects_iff:
  "\<not> isValid (validateTodoText t) \<longleftrightarrow>
     trim t = [] \<or> length t > 200 \<or> 0x3C \<in> set t \<or> 0x3E \<in> set t"
  by (auto simp: validateTodoText_valid_iff)

theorem validateTodoText_rejects_iff_witness:
  "\<not> isValid (validateTodoText (js ''<script>'')) \<and> isValid (validateTodoText (js ''  Buy milk ''))"
proof -
  have a: "0x3C \<in> set (js ''<script>'')" by (simp add: js_def)
  have b: "\<not> (trim (js ''  Buy milk '') = [] \<or> length (js ''  Buy milk '') > 200
              \<or> 0x3C \<in> set (js ''  Buy milk '') \<or> 0x3E \<in> set (js ''  Buy milk ''))"
    by code_simp
  show ?thesis
    using a b validateTodoText_rejects_iff [of "js ''<script>''"]
      validateTodoText_rejects_iff [of "js ''  Buy milk ''"] by blast
qed

section \<open>Properties of the manager\<close>

lemma includes_Nil: "includes' s [] = True"
  by (cases s) simp_all

lemma emit_simps:
  "storage (emit e m) = storage m" "todos (emit e m) = todos m" "objects (emit e m) = objects m"
  "nextRef (emit e m) = nextRef m" "initialized (emit e m) = initialized m"
  "emitted (emit e m) = emitted m @ [e]"
  by (simp_all add: emit_def)

lemma contents_emit: "contents (emit e m) = contents m"
  by (simp add: contents_def getAllTodos_def emit_simps)

lemma saveTodos_ok:
  "saveTodos True m =
     (True, emit TodosSaved (m\<lparr>storage := (storage m)\<lparr>stored := Some (map (objects m) (todos m)),
                                                      writes := Suc (writes (storage m))\<rparr>\<rparr>))"
  by (simp add: saveTodos_def storageSaveTodos_def)

lemma saveTodos_fail:
  "saveTodos False m = (False, m\<lparr>storage := (storage m)\<lparr>writes := Suc (writes (storage m))\<rparr>\<rparr>)"
  by (simp add: saveTodos_def storageSaveTodos_def)

lemma readyManager_eq:
  "readyManager = \<lparr>storage = emptyStorage, todos = [], objects = blankObjects, nextRef = 0,
                    initialized = True, emitted = [TodosLoaded, Initialized]\<rparr>"
  by (simp add: readyManager_def initialize_def loadTodos_def storageLoadTodos_def emptyStorage_def
      newTodoManager_def validateTodoArray_def emit_def blankObjects_def)

lemma sanitize_milk: "sanitizeInput (js ''Buy milk'') = js ''Buy milk''"
  by code_simp
lemma valid_milk: "isValid (validateTodoText (js ''Buy milk''))"
  by code_simp
lemma sanitize_dog: "sanitizeInput (js ''Walk dog'') = js ''Walk dog''"
  by code_simp
lemma valid_dog: "isValid (validateTodoText (js ''Walk dog''))"
  by code_simp

lemma createValidTodo_valid:
  "isValid (validateTodoText t) \<Longrightarrow>
   newTodo (createValidTodo now newId t) =
     Some \<lparr>id' = newId, text' = sanitizeInput t, completed = False, createdAt = now, updatedAt = now\<rparr>"
  by (simp add: createValidTodo_def validateTodoText_def Let_def)

lemma addTodo_valid_ok:
  assumes "initialized m" and "isValid (validateTodoText t)"
  shows "addTodo True now newId t m =
     (Some (nextRef m),
      m\<lparr>objects := (objects m)(nextRef m := \<lparr>id' = newId, text' = sanitizeInput t, completed = False,
                                                createdAt = now, updatedAt = now\<rparr>),
           nextRef := Suc (nextRef m),
           todos := nextRef m # todos m,
           storage := (storage m)\<lparr>stored := Some (map ((objects m)(nextRef m := \<lparr>id' = newId, text' = sanitizeInput t, completed = False,
                                                createdAt = now, updatedAt = now\<rparr>)) (nextRef m # todos m)),
                                   writes := Suc (writes (storage m))\<rparr>,
           emitted := emitted m @ [TodosSaved, TodoAdded (nextRef m)]\<rparr>)"
  using assms by (simp add: addTodo_def createValidTodo_valid alloc_def saveTodos_ok emit_def)

lemma milkManager_eq:
  "milkManager = \<lparr>storage = \<lparr>stored = Some [milk], writes = 1\<rparr>, todos = [0],
                   objects = blankObjects(0 := milk), nextRef = 1,
                   initialized = True, emitted = [TodosLoaded, Initialized, TodosSaved, TodoAdded 0]\<rparr>"
  by (simp add: milkManager_def readyManager_eq addTodo_valid_ok valid_milk sanitize_milk milk_def emptyStorage_def)

lemma dogManager_eq:
  "dogManager = \<lparr>storage = \<lparr>stored = Some [dog, milk], writes = 2\<rparr>, todos = [1, 0],
                   objects = blankObjects(0 := milk, 1 := dog), nextRef = 2,
                   initialized = True,
                   emitted = [TodosLoaded, Initialized, TodosSaved, TodoAdded 0, TodosSaved, TodoAdded 1]\<rparr>"
  by (simp add: dogManager_def milkManager_eq addTodo_valid_ok valid_dog sanitize_dog dog_def)


lemma alloc_simps:
  "fst (alloc v m) = nextRef m"
  "objects (snd (alloc v m)) = (objects m)(nextRef m := v)"
  "nextRef (snd (alloc v m)) = Suc (nextRef m)"
  "todos (snd (alloc v m)) = todos m"
  "storage (snd (alloc v m)) = storage m"
  "initialized (snd (alloc v m)) = initialized m"
  "emitted (snd (alloc v m)) = emitted m"
  by (simp_all add: alloc_def)

lemma allocAll_frame:
  "todos (snd (allocAll vs m)) = todos m \<and> storage (snd (allocAll vs m)) = storage m
   \<and> initialized (snd (allocAll vs m)) = initialized m \<and> emitted (snd (allocAll vs m)) = emitted m
   \<and> nextRef (snd (allocAll vs m)) = nextRef m + length vs
   \<and> fst (allocAll vs m) = [nextRef m ..< nextRef m + length vs]"
proof (induction vs arbitrary: m)
  case Nil
  then show ?case by simp
next
  case (Cons v vs)
  have step: "[nextRef m ..< nextRef m + length (v # vs)]
                = nextRef m # [Suc (nextRef m) ..< Suc (nextRef m) + length vs]"
    by (simp add: upt_conv_Cons del: upt_Suc)
  show ?case
    unfolding step using Cons.IH[of "snd (alloc v m)"]
    by (simp add: split_beta alloc_simps del: upt_Suc)
qed

lemma allocAll_old:
  "r < nextRef m \<Longrightarrow> objects (snd (allocAll vs m)) r = objects m r"
proof (induction vs arbitrary: m)
  case Nil
  then show ?case by simp
next
  case (Cons v vs)
  have "objects (snd (allocAll vs (snd (alloc v m)))) r = objects (snd (alloc v m)) r"
    using Cons.prems by (intro Cons.IH) (simp add: alloc_simps)
  then show ?case using Cons.prems by (simp add: split_beta alloc_simps)
qed

lemma allocAll_new:
  "map (objects (snd (allocAll vs m))) (fst (allocAll vs m)) = vs"
proof (induction vs arbitrary: m)
  case Nil
  then show ?case by simp
next
  case (Cons v vs)
  have "objects (snd (allocAll vs (snd (alloc v m)))) (nextRef m) = objects (snd (alloc v m)) (nextRef m)"
    by (intro allocAll_old) (simp add: alloc_simps)
  then show ?case using Cons.IH[of "snd (alloc v m)"]
    by (simp add: split_beta alloc_simps)
qed

lemma map_insort_key:
  "map g (insort_key (\<lambda>r. k (g r)) x xs) = insort_key k (g x) (map g xs)"
  by (induction xs) simp_all

lemma map_sort_key:
  "map g (sort_key (\<lambda>r. k (g r)) xs) = sort_key k (map g xs)"
  by (induction xs) (simp_all add: map_insort_key)

lemma contents_loadTodos:
  "contents (snd (loadTodos parseDate defaultsAt nowAt m)) =
     sort_key (\<lambda>v. - dateKey parseDate v)
       (validTodos (validateTodoArray parseDate nowAt (storageLoadTodos defaultsAt (storage m))))"
proof -
  let ?vs = "validTodos (validateTodoArray parseDate nowAt (storageLoadTodos defaultsAt (storage m)))"
  let ?a = "allocAll ?vs m"
  have "contents (snd (loadTodos parseDate defaultsAt nowAt m)) =
          map (objects (snd ?a)) (sort_key (\<lambda>r. - dateKey parseDate (objects (snd ?a) r)) (fst ?a))"
    by (simp add: loadTodos_def Let_def split_beta contents_def getAllTodos_def emit_simps)
  also have "\<dots> = sort_key (\<lambda>v. - dateKey parseDate v) (map (objects (snd ?a)) (fst ?a))"
    by (rule map_sort_key[where k = "\<lambda>v. - dateKey parseDate v"])
  finally show ?thesis by (simp add: allocAll_new)
qed

lemma contents_initialize:
  "contents (snd (initialize parseDate defaultsAt nowAt m)) =
     contents (snd (loadTodos parseDate defaultsAt nowAt m))"
  by (simp add: initialize_def Let_def split_beta contents_def getAllTodos_def emit_simps)

text \<open>
  C9: a query that is not empty and consists of whitespace only is trimmed to the empty
  string, which every text includes, so \<open>searchTodos\<close> returns every item in the order of
  the list; the empty string and a value that is not a string give the empty result.  The
  third assumption is a fact about the platform's \<open>toLowerCase\<close>: whitespace has no case
  mapping, so the lower-cased query is still whitespace.
\<close>

theorem searchTodos_whitespace_query:
  assumes "q \<noteq> []" and "list_all isWhiteSpace q" and "list_all isWhiteSpace (toLowerCase q)"
  shows "searchTodos toLowerCase (Some q) m = getAllTodos m
         \<and> searchTodos toLowerCase (Some []) m = []
         \<and> searchTodos toLowerCase None m = []"
  using assms by (simp add: searchTodos_def getAllTodos_def trim_all_whitespace includes_Nil)

theorem searchTodos_whitespace_query_witness:
  "js ''  '' \<noteq> [] \<and> list_all isWhiteSpace (js ''  '')
   \<and> searchTodos (\<lambda>s. s) (Some (js ''  '')) dogManager = [1, 0]
   \<and> map text' (contents dogManager) = [js ''Walk dog'', js ''Buy milk'']
   \<and> searchTodos (\<lambda>s. s) (Some []) dogManager = []"
proof -
  have a: "js ''  '' \<noteq> []" by (simp add: js_def)
  have b: "list_all isWhiteSpace (js ''  '')" by (simp add: js_def isWhiteSpace_def)
  show ?thesis
    using a b searchTodos_whitespace_query
        [where q = "js ''  ''" and toLowerCase = "\<lambda>s. s" and m = dogManager]
    by (simp add: getAllTodos_def contents_def dogManager_eq dog_def milk_def)
qed

subsection \<open>Batches that change nothing\<close>

lemma batchLoop_noop:
  "list_all (batchNoop action m) ids \<Longrightarrow>
   \<exists>a'. batchLoop action clock k ids (m, p, a) = (m, p, a')"
proof (induction ids arbitrary: k a)
  case Nil
  then show ?case by simp
next
  case (Cons i ids)
  then have n: "batchNoop action m i" and rest: "list_all (batchNoop action m) ids" by simp_all
  show ?case
  proof (cases "findById m i")
    case None
    then show ?thesis using Cons.IH[OF rest] by simp
  next
    case (Some r)
    with n have "(action = ''complete'' \<and> completed (objects m r))
                 \<or> (action = ''incomplete'' \<and> \<not> completed (objects m r))"
      by (simp add: batchNoop_def)
    then show ?thesis using Some Cons.IH[OF rest] by (auto simp: Let_def)
  qed
qed

text \<open>
  C10: on an initialized manager, with IDs given and a valid action, a batch in which no
  round changes an item counts \<open>processed = 0\<close>, so \<open>saveTodos\<close> is not called (the count of
  writes and the stored copy stay as they were); the operation still takes the branch of
  the failed save: it returns \<open>{success: false, processed: 0}\<close>, emits the error of type
  \<open>save\<close> with action \<open>batch\<close>, and leaves the list as it was.
\<close>

theorem batchOperation_noop_reports_save_failure:
  assumes "initialized m" and "ids \<noteq> []"
    and "action \<in> set [''complete'', ''incomplete'', ''delete'']"
    and "list_all (batchNoop action m) ids"
  shows "fst (batchOperation ok clock ids action m) = (False, 0)
       \<and> snd (batchOperation ok clock ids action m) = emit (Error ''save'' ''batch'') m
       \<and> emitted (snd (batchOperation ok clock ids action m)) = emitted m @ [Error ''save'' ''batch'']
       \<and> writes (storage (snd (batchOperation ok clock ids action m))) = writes (storage m)
       \<and> stored (storage (snd (batchOperation ok clock ids action m))) = stored (storage m)
       \<and> contents (snd (batchOperation ok clock ids action m)) = contents m"
proof -
  obtain a' where "batchLoop action clock 0 ids (m, 0, []) = (m, 0, a')"
    using batchLoop_noop[OF assms(4)] by blast
  then have "batchOperation ok clock ids action m = ((False, 0), emit (Error ''save'' ''batch'') m)"
    using assms(1-3) by (simp add: batchOperation_def)
  then show ?thesis by (simp add: emit_simps contents_emit)
qed

lemma js_neq: "js ''id9'' \<noteq> js ''id1''" "js ''id9'' \<noteq> js ''id2''" "js ''id2'' \<noteq> js ''id1''"
  by (simp_all add: js_def)

theorem batchOperation_noop_reports_save_failure_witness:
  "initialized dogManager
   \<and> fst (batchOperation True (\<lambda>k. time2) [js ''id9''] ''incomplete'' dogManager) = (False, 0)
   \<and> emitted (snd (batchOperation True (\<lambda>k. time2) [js ''id9''] ''incomplete'' dogManager))
        = emitted dogManager @ [Error ''save'' ''batch'']
   \<and> writes (storage (snd (batchOperation True (\<lambda>k. time2) [js ''id9''] ''incomplete'' dogManager))) = 2
   \<and> fst (batchOperation True (\<lambda>k. time2) [js ''id2'', js ''id1''] ''incomplete'' dogManager) = (False, 0)"
proof -
  have a: "initialized dogManager" by (simp add: dogManager_eq)
  have b: "list_all (batchNoop ''incomplete'' dogManager) [js ''id9'']"
    by (simp add: batchNoop_def findById_def dogManager_eq dog_def milk_def js_neq)
  have c: "list_all (batchNoop ''incomplete'' dogManager) [js ''id2'', js ''id1'']"
    by (simp add: batchNoop_def findById_def dogManager_eq dog_def milk_def js_neq)
  have d: "writes (storage dogManager) = 2" by (simp add: dogManager_eq)
  show ?thesis
    using a d
      batchOperation_noop_reports_save_failure
        [OF a _ _ b, where ok = True and clock = "\<lambda>k. time2"]
      batchOperation_noop_reports_save_failure
        [OF a _ _ c, where ok = True and clock = "\<lambda>k. time2"]
    by (simp add: emit_simps)
qed

subsection \<open>Adding\<close>

lemma addTodo_invalid:
  assumes "initialized m" and "\<not> isValid (validateTodoText t)"
  shows "addTodo ok now newId t m = (None, emit (ValidationError ''add'' (errors (validateTodoText t))) m)"
  using assms by (simp add: addTodo_def createValidTodo_def)

text \<open>
  C6: for every text that is empty after trimming or longer than 200 characters,
  \<open>addTodo\<close>, called on an initialized manager as every mutating operation is, returns
  \<open>null\<close>; the list and its objects are as before, the storage is not written (the count
  of writes and the stored copy are as before), and one \<open>validation-error\<close> of type \<open>add\<close>
  is emitted, with the errors of \<open>validateTodoText\<close>, of which there is at least one.
\<close>

theorem addTodo_rejects_blank_or_long:
  assumes "initialized m" and "trim t = [] \<or> length t > 200"
  shows "fst (addTodo ok now newId t m) = None
       \<and> contents (snd (addTodo ok now newId t m)) = contents m
       \<and> todos (snd (addTodo ok now newId t m)) = todos m
       \<and> objects (snd (addTodo ok now newId t m)) = objects m
       \<and> writes (storage (snd (addTodo ok now newId t m))) = writes (storage m)
       \<and> stored (storage (snd (addTodo ok now newId t m))) = stored (storage m)
       \<and> emitted (snd (addTodo ok now newId t m))
           = emitted m @ [ValidationError ''add'' (errors (validateTodoText t))]
       \<and> errors (validateTodoText t) \<noteq> []"
proof -
  have invalid: "\<not> isValid (validateTodoText t)"
    using assms(2) by (auto simp: validateTodoText_valid_iff)
  then have "errors (validateTodoText t) \<noteq> []"
    by (simp add: validateTodoText_def Let_def)
  then show ?thesis
    using assms(1) invalid by (simp add: addTodo_invalid emit_simps contents_emit)
qed

theorem addTodo_rejects_blank_or_long_witness:
  "initialized dogManager \<and> trim (js ''   '') = []
   \<and> fst (addTodo True time2 (js ''id3'') (js ''   '') dogManager) = None
   \<and> contents (snd (addTodo True time2 (js ''id3'') (js ''   '') dogManager)) = [dog, milk]
   \<and> writes (storage (snd (addTodo True time2 (js ''id3'') (js ''   '') dogManager))) = 2
   \<and> last (emitted (snd (addTodo True time2 (js ''id3'') (js ''   '') dogManager)))
        = ValidationError ''add'' [EmptyText]"
proof -
  have a: "initialized dogManager" by (simp add: dogManager_eq)
  have b: "trim (js ''   '') = []" by code_simp
  have c: "errors (validateTodoText (js ''   '')) = [EmptyText]" by code_simp
  have d: "contents dogManager = [dog, milk]" "writes (storage dogManager) = 2"
    by (simp_all add: contents_def getAllTodos_def dogManager_eq)
  show ?thesis
    using a b c d addTodo_rejects_blank_or_long
      [where m = dogManager and t = "js ''   ''" and ok = True and now = time2 and newId = "js ''id3''"]
    by simp
qed

text \<open>
  C5, as stated, fails twice.  A text of one space has one character and no angle
  bracket, and \<open>addTodo\<close> returns \<open>null\<close> for it.  And the new ID is whatever
  \<open>generateId\<close> returns: \<open>addTodo\<close> does not compare it with the IDs in the list, so when
  the generator repeats an ID the new record has the ID of an old one.
\<close>

theorem addTodo_whitespace_or_collision_counterexample:
  "initialized readyManager \<and> length (js '' '') = 1
   \<and> 0x3C \<notin> set (js '' '') \<and> 0x3E \<notin> set (js '' '')
   \<and> fst (addTodo True time1 (js ''id1'') (js '' '') readyManager) = None
   \<and> initialized milkManager \<and> map id' (contents milkManager) = [js ''id1'']
   \<and> fst (addTodo True time2 (js ''id1'') (js ''Walk dog'') milkManager) = Some 1
   \<and> id' (objects (snd (addTodo True time2 (js ''id1'') (js ''Walk dog'') milkManager)) 1) = js ''id1''"
proof -
  have a: "\<not> isValid (validateTodoText (js '' ''))" by code_simp
  have b: "initialized readyManager" "initialized milkManager"
    by (simp_all add: readyManager_eq milkManager_eq)
  have c: "length (js '' '') = 1 \<and> 0x3C \<notin> set (js '' '') \<and> 0x3E \<notin> set (js '' '')"
    by (simp add: js_def)
  have d: "map id' (contents milkManager) = [js ''id1'']"
    by (simp add: contents_def getAllTodos_def milkManager_eq milk_def)
  have e: "nextRef milkManager = 1" by (simp add: milkManager_eq)
  show ?thesis
    using a b c d e by (simp add: addTodo_invalid addTodo_valid_ok valid_dog)
qed

text \<open>
  C5, amended: on an initialized manager whose save succeeds, for every text that is not
  blank after trimming, has at most 200 characters as given and contains no \<open><\<close> or
  \<open>>\<close>, \<open>addTodo\<close> returns a record, placed at the head of the list, whose ID is the
  generated ID, whose text is the sanitized text, whose \<open>completed\<close> is false and whose
  \<open>createdAt\<close> equals its \<open>updatedAt\<close>; its ID differs from every ID in the list whenever
  the generated ID does.
\<close>

theorem addTodo_accepts_valid_text:
  assumes "initialized m" and "trim t \<noteq> []" and "length t \<le> 200"
    and "0x3C \<notin> set t" and "0x3E \<notin> set t"
  shows "\<exists>r. fst (addTodo True now newId t m) = Some r
           \<and> getAllTodos (snd (addTodo True now newId t m)) = r # getAllTodos m
           \<and> objects (snd (addTodo True now newId t m)) r
               = \<lparr>id' = newId, text' = sanitizeInput t, completed = False,
                  createdAt = now, updatedAt = now\<rparr>
           \<and> \<not> completed (objects (snd (addTodo True now newId t m)) r)
           \<and> createdAt (objects (snd (addTodo True now newId t m)) r)
               = updatedAt (objects (snd (addTodo True now newId t m)) r)
           \<and> (list_all (\<lambda>v. id' v \<noteq> newId) (contents m) \<longrightarrow>
                list_all (\<lambda>v. id' v \<noteq> id' (objects (snd (addTodo True now newId t m)) r)) (contents m))"
proof -
  have "isValid (validateTodoText t)"
    using assms(2-5) by (simp add: validateTodoText_valid_iff)
  then show ?thesis
    using assms(1) by (simp add: addTodo_valid_ok getAllTodos_def)
qed

theorem addTodo_accepts_valid_text_witness:
  "initialized milkManager \<and> trim (js ''Walk dog'') \<noteq> [] \<and> length (js ''Walk dog'') \<le> 200
   \<and> 0x3C \<notin> set (js ''Walk dog'') \<and> 0x3E \<notin> set (js ''Walk dog'')
   \<and> fst (addTodo True time2 (js ''id2'') (js ''Walk dog'') milkManager) = Some 1
   \<and> objects (snd (addTodo True time2 (js ''id2'') (js ''Walk dog'') milkManager)) 1 = dog
   \<and> list_all (\<lambda>v. id' v \<noteq> js ''id2'') (contents milkManager)"
proof -
  have a: "initialized milkManager" by (simp add: milkManager_eq)
  have b: "trim (js ''Walk dog'') \<noteq> [] \<and> length (js ''Walk dog'') \<le> 200
   \<and> 0x3C \<notin> set (js ''Walk dog'') \<and> 0x3E \<notin> set (js ''Walk dog'')"
    using valid_dog by (simp add: validateTodoText_valid_iff)
  have c: "list_all (\<lambda>v. id' v \<noteq> js ''id2'') (contents milkManager)"
    by (simp add: contents_def getAllTodos_def milkManager_eq milk_def js_def)
  have d: "fst (addTodo True time2 (js ''id2'') (js ''Walk dog'') milkManager) = Some 1"
     "objects (snd (addTodo True time2 (js ''id2'') (js ''Walk dog'') milkManager)) 1 = dog"
    using dogManager_eq by (simp_all add: addTodo_valid_ok valid_dog a milkManager_eq sanitize_dog dog_def)
  show ?thesis
    using a b c d addTodo_accepts_valid_text
      [where m = milkManager and t = "js ''Walk dog''" and now = time2 and newId = "js ''id2''"]
    by simp
qed

subsection \<open>Valid records and what \<open>validateTodoArray\<close> keeps\<close>

lemma trim_eq_Nil_iff: "trim s = [] \<longleftrightarrow> list_all isWhiteSpace s"
proof
  assume t: "trim s = []"
  then have "dropWhile isWhiteSpace (rev (dropWhile isWhiteSpace s)) = []"
    by (simp add: trim_def)
  then have all: "\<forall>x \<in> set (dropWhile isWhiteSpace s). isWhiteSpace x"
    by simp
  have "dropWhile isWhiteSpace s = []"
  proof (rule ccontr)
    assume ne: "dropWhile isWhiteSpace s \<noteq> []"
    then have "\<not> isWhiteSpace (hd (dropWhile isWhiteSpace s))" by (rule hd_dropWhile)
    moreover have "hd (dropWhile isWhiteSpace s) \<in> set (dropWhile isWhiteSpace s)"
      using ne by simp
    ultimately show False using all by blast
  qed
  then show "list_all isWhiteSpace s" by (simp add: list_all_iff)
next
  assume "list_all isWhiteSpace s"
  then show "trim s = []" by (rule trim_all_whitespace)
qed

lemma digit_not_whitespace: "isDigit c \<Longrightarrow> \<not> isWhiteSpace c"
  by (auto simp: isDigit_def isWhiteSpace_def)

lemma idChar_not_whitespace: "isIdChar c \<Longrightarrow> \<not> isWhiteSpace c"
  by (auto simp: isIdChar_def isDigit_def isWhiteSpace_def)

lemma timestampPattern_not_blank: "timestampPattern ts \<Longrightarrow> ts \<noteq> [] \<and> trim ts \<noteq> []"
  by (auto simp: timestampPattern_def timestampTemplate_def list_all2_Cons1 trim_eq_Nil_iff
      dest: digit_not_whitespace)

lemma idPattern_not_blank: "idPattern i \<Longrightarrow> i \<noteq> [] \<and> trim i \<noteq> []"
  by (cases i) (auto simp: idPattern_def trim_eq_Nil_iff dest: idChar_not_whitespace)

lemma validateTimestamp_valid_iff:
  "isValid (validateTimestamp parseDate ts f) \<longleftrightarrow> timestampPattern ts \<and> parseDate ts \<noteq> None"
  using timestampPattern_not_blank[of ts]
  by (auto simp: validateTimestamp_def Let_def trim_Nil)

lemma validateTodoId_valid_iff: "isValid (validateTodoId i) \<longleftrightarrow> idPattern i"
  using idPattern_not_blank[of i]
  by (auto simp: validateTodoId_def Let_def trim_Nil)

lemma validation_errors:
  "isValid (validateTodoText t) \<longleftrightarrow> errors (validateTodoText t) = []"
  "isValid (validateTodoId i) \<longleftrightarrow> errors (validateTodoId i) = []"
  "isValid (validateTimestamp parseDate ts f) \<longleftrightarrow> errors (validateTimestamp parseDate ts f) = []"
  by (simp_all add: validateTodoText_def validateTodoId_def validateTimestamp_def Let_def)

lemma validateTodoData_parts:
  "isValid (validateTodoData parseDate now1 now2 t) \<longleftrightarrow>
     isValid (validateTodoText (text' t)) \<and> isValid (validateTodoId (id' t))
     \<and> isValid (validateTimestamp parseDate (createdAt t) ''createdAt'')
     \<and> isValid (validateTimestamp parseDate (updatedAt t) ''updatedAt'')"
  by (auto simp: validateTodoData_def Let_def validateCompleted_def validation_errors)

lemma validateTodoData_valid_iff:
  "isValid (validateTodoData parseDate now1 now2 t) \<longleftrightarrow>
     isValid (validateTodoText (text' t)) \<and> idPattern (id' t)
     \<and> timestampPattern (createdAt t) \<and> parseDate (createdAt t) \<noteq> None
     \<and> timestampPattern (updatedAt t) \<and> parseDate (updatedAt t) \<noteq> None"
  by (simp add: validateTodoData_parts validateTimestamp_valid_iff validateTodoId_valid_iff)

lemma validRecord_iff:
  "validRecord parseDate t \<longleftrightarrow>
     isValid (validateTodoText (text' t)) \<and> idPattern (id' t)
     \<and> timestampPattern (createdAt t) \<and> parseDate (createdAt t) \<noteq> None
     \<and> timestampPattern (updatedAt t) \<and> parseDate (updatedAt t) \<noteq> None"
  by (simp add: validRecord_def validateTodoData_valid_iff)

lemma validateTodoData_valid:
  "isValid (validateTodoData parseDate now1 now2 t) = validRecord parseDate t"
  by (simp add: validRecord_iff validateTodoData_valid_iff)

lemma sanitizedTodo_valid:
  assumes "validRecord parseDate t"
  shows "sanitizedTodo (validateTodoData parseDate now1 now2 t) = t\<lparr>text' := sanitizeInput (text' t)\<rparr>"
proof -
  have "createdAt t \<noteq> []" "updatedAt t \<noteq> []"
    using assms timestampPattern_not_blank by (auto simp: validRecord_iff)
  then show ?thesis
    by (simp add: validateTodoData_def Let_def validateTodoText_def)
qed

lemma validateItems_valid:
  "snd (validateItems parseDate nowAt ts k) =
     map (\<lambda>t. t\<lparr>text' := sanitizeInput (text' t)\<rparr>) (filter (validRecord parseDate) ts)"
  by (induction ts arbitrary: k) (simp_all add: Let_def validateTodoData_valid sanitizedTodo_valid)

lemma validTodos_eq:
  "validTodos (validateTodoArray parseDate nowAt ts) =
     map (\<lambda>t. t\<lparr>text' := sanitizeInput (text' t)\<rparr>) (filter (validRecord parseDate) ts)"
  by (simp add: validateTodoArray_def Let_def validateItems_valid)

subsection \<open>Order of the list\<close>

lemma valid_samples: "validRecord sampleParse milk" "validRecord sampleParse dog"
  unfolding validRecord_iff
  by (simp_all add: milk_def dog_def valid_milk valid_dog sampleParse_def)
     (code_simp+)

lemma time_neq: "time1 \<noteq> time2" "time2 \<noteq> time1"
  by (simp_all add: time1_def time2_def js_def)

lemma sample_dateKey:
  "dateKey sampleParse milk = 1704067200000" "dateKey sampleParse dog = 1704153600000"
  by (simp_all add: dateKey_def sampleParse_def milk_def dog_def time_neq)

lemma withDefaults_valid:
  "validRecord parseDate t \<Longrightarrow> withDefaults d t = t"
  using timestampPattern_not_blank idPattern_not_blank
  by (auto simp: validRecord_iff withDefaults_def)

lemma sample_sanitized:
  "milk\<lparr>text' := sanitizeInput (text' milk)\<rparr> = milk" "dog\<lparr>text' := sanitizeInput (text' dog)\<rparr> = dog"
  by (simp_all add: milk_def dog_def sanitize_milk sanitize_dog)

lemma contents_oldFirst:
  "contents (snd (initialize sampleParse sampleDefaults sampleNow (newTodoManager oldFirstStorage)))
     = [dog, milk]"
  by (simp add: contents_initialize contents_loadTodos validTodos_eq storageLoadTodos_def
      newTodoManager_def oldFirstStorage_def withDefaults_valid[OF valid_samples(1)]
      withDefaults_valid[OF valid_samples(2)] valid_samples sample_sanitized sample_dateKey)

lemma addTodo_Some:
  "fst (addTodo ok now newId t m) = Some r \<Longrightarrow>
   getAllTodos (snd (addTodo ok now newId t m)) = r # getAllTodos m"
  by (auto simp: addTodo_def Let_def split_beta alloc_def saveTodos_def storageSaveTodos_def
      emit_def getAllTodos_def split: option.splits if_splits)

text \<open>
  C7: after \<open>initialize\<close> the list holds the valid loaded records sorted by the date of
  \<open>createdAt\<close>, latest first (every one of these dates parses); an \<open>addTodo\<close> that returns
  a record has put it at index 0, in front of the list as it was; and from the empty
  list, adding "Buy milk" and then "Walk dog" gives the list "Walk dog", "Buy milk".
\<close>

theorem newest_first:
  "contents (snd (initialize parseDate defaultsAt nowAt m))
     = sort_key (\<lambda>v. - dateKey parseDate v)
         (validTodos (validateTodoArray parseDate nowAt (storageLoadTodos defaultsAt (storage m))))
   \<and> sorted_wrt (\<lambda>a b. dateKey parseDate b \<le> dateKey parseDate a)
        (contents (snd (initialize parseDate defaultsAt nowAt m)))
   \<and> list_all (\<lambda>v. parseDate (createdAt v) \<noteq> None)
        (contents (snd (initialize parseDate defaultsAt nowAt m)))
   \<and> (\<forall>r. fst (addTodo ok now newId t m) = Some r \<longrightarrow>
          getAllTodos (snd (addTodo ok now newId t m)) = r # getAllTodos m)
   \<and> map text' (contents dogManager) = [js ''Walk dog'', js ''Buy milk'']"
proof -
  let ?vs = "validTodos (validateTodoArray parseDate nowAt (storageLoadTodos defaultsAt (storage m)))"
  have eq: "contents (snd (initialize parseDate defaultsAt nowAt m))
              = sort_key (\<lambda>v. - dateKey parseDate v) ?vs"
    by (simp add: contents_initialize contents_loadTodos)
  have "sorted (map (\<lambda>v. - dateKey parseDate v) (sort_key (\<lambda>v. - dateKey parseDate v) ?vs))"
    by (rule sorted_sort_key)
  then have srt: "sorted_wrt (\<lambda>a b. dateKey parseDate b \<le> dateKey parseDate a)
                    (sort_key (\<lambda>v. - dateKey parseDate v) ?vs)"
    by (simp add: sorted_map)
  have "\<forall>v \<in> set ?vs. parseDate (createdAt v) \<noteq> None"
    by (auto simp: validTodos_eq validRecord_iff)
  then have dates: "list_all (\<lambda>v. parseDate (createdAt v) \<noteq> None)
                      (sort_key (\<lambda>v. - dateKey parseDate v) ?vs)"
    by (simp add: list_all_iff)
  have scenario: "map text' (contents dogManager) = [js ''Walk dog'', js ''Buy milk'']"
    by (simp add: contents_def getAllTodos_def dogManager_eq dog_def milk_def)
  show ?thesis
    unfolding eq using srt dates scenario addTodo_Some by blast
qed

theorem newest_first_witness:
  "contents (snd (initialize sampleParse sampleDefaults sampleNow (newTodoManager oldFirstStorage)))
     = [dog, milk]
   \<and> sorted_wrt (\<lambda>a b. dateKey sampleParse b \<le> dateKey sampleParse a) [dog, milk]
   \<and> fst (addTodo True time2 (js ''id2'') (js ''Walk dog'') milkManager) = Some 1
   \<and> getAllTodos (snd (addTodo True time2 (js ''id2'') (js ''Walk dog'') milkManager)) = [1, 0]"
proof -
  have a: "fst (addTodo True time2 (js ''id2'') (js ''Walk dog'') milkManager) = Some 1"
    by (simp add: addTodo_valid_ok valid_dog milkManager_eq)
  have b: "getAllTodos milkManager = [0]"
    by (simp add: getAllTodos_def milkManager_eq)
  show ?thesis
    using a b contents_oldFirst
      newest_first [where parseDate = sampleParse and defaultsAt = sampleDefaults and nowAt = sampleNow
        and m = "newTodoManager oldFirstStorage"]
      newest_first [where m = milkManager and ok = True and now = time2 and newId = "js ''id2''"
        and t = "js ''Walk dog''"]
    by (simp add: sample_dateKey)
qed

subsection \<open>Rollback after a failed save\<close>

lemma findById_milk: "findById milkManager (js ''id1'') = Some 0"
  by (simp add: findById_def milkManager_eq milk_def)

text \<open>
  C1 does not hold of \<open>toggleTodo\<close> and \<open>batchOperation\<close>.  With one pending item in the
  list and a save that fails, \<open>toggleTodo\<close> flips \<open>completed\<close> back and leaves the new
  \<open>updatedAt\<close> in the object; \<open>batchOperation\<close> with \<open>complete\<close> puts back its copy of the
  array, which holds the same objects, so the item stays completed with the new
  \<open>updatedAt\<close>.  Both emit the error of type \<open>save\<close>.
\<close>

theorem rollback_keeps_changes:
  "initialized milkManager \<and> contents milkManager = [milk]
   \<and> fst (toggleTodo False time2 (js ''id1'') milkManager) = False
   \<and> contents (snd (toggleTodo False time2 (js ''id1'') milkManager)) = [milk\<lparr>updatedAt := time2\<rparr>]
   \<and> contents (snd (toggleTodo False time2 (js ''id1'') milkManager)) \<noteq> contents milkManager
   \<and> last (emitted (snd (toggleTodo False time2 (js ''id1'') milkManager))) = Error ''save'' ''toggle''
   \<and> fst (batchOperation False (\<lambda>k. time2) [js ''id1''] ''complete'' milkManager) = (False, 0)
   \<and> contents (snd (batchOperation False (\<lambda>k. time2) [js ''id1''] ''complete'' milkManager))
        = [milk\<lparr>completed := True, updatedAt := time2\<rparr>]
   \<and> contents (snd (batchOperation False (\<lambda>k. time2) [js ''id1''] ''complete'' milkManager))
        \<noteq> contents milkManager
   \<and> last (emitted (snd (batchOperation False (\<lambda>k. time2) [js ''id1''] ''complete'' milkManager)))
        = Error ''save'' ''batch''"
proof -
  have m: "objects milkManager 0 = milk" "todos milkManager = [0]" "initialized milkManager"
    by (simp_all add: milkManager_eq)
  have c: "contents milkManager = [milk]"
    by (simp add: contents_def getAllTodos_def m)
  have t: "fst (toggleTodo False time2 (js ''id1'') milkManager) = False"
    "todos (snd (toggleTodo False time2 (js ''id1'') milkManager)) = [0]"
    "objects (snd (toggleTodo False time2 (js ''id1'') milkManager)) 0 = milk\<lparr>updatedAt := time2\<rparr>"
    "emitted (snd (toggleTodo False time2 (js ''id1'') milkManager))
       = emitted milkManager @ [Error ''save'' ''toggle'']"
    by (simp_all add: toggleTodo_def findById_milk m saveTodos_fail milk_def emit_def)
  have b: "fst (batchOperation False (\<lambda>k. time2) [js ''id1''] ''complete'' milkManager) = (False, 0)"
    "todos (snd (batchOperation False (\<lambda>k. time2) [js ''id1''] ''complete'' milkManager)) = [0]"
    "objects (snd (batchOperation False (\<lambda>k. time2) [js ''id1''] ''complete'' milkManager)) 0
       = milk\<lparr>completed := True, updatedAt := time2\<rparr>"
    "emitted (snd (batchOperation False (\<lambda>k. time2) [js ''id1''] ''complete'' milkManager))
       = emitted milkManager @ [Error ''save'' ''batch'']"
    by (simp_all add: batchOperation_def findById_milk m saveTodos_fail milk_def emit_def)
  have d: "milk\<lparr>updatedAt := time2\<rparr> \<noteq> milk" "milk\<lparr>completed := True, updatedAt := time2\<rparr> \<noteq> milk"
    by (simp_all add: milk_def time_neq)
  show ?thesis
    using m c d by (simp add: contents_def getAllTodos_def t b)
qed

text \<open>
  The other operations do restore the list after a failed save: \<open>addTodo\<close> (on a well
  formed array), \<open>deleteTodo\<close>, \<open>updateTodo\<close> and \<open>clearAllTodos\<close>; \<open>toggleTodo\<close> restores all
  but \<open>updatedAt\<close>.
\<close>

lemma findIndex_less: "findIndex P xs = Some i \<Longrightarrow> i < length xs"
  by (induction xs arbitrary: i) (auto split: if_splits)

lemma splice_inverse: "i < length xs \<Longrightarrow> spliceIn i (xs ! i) (spliceOut i xs) = xs"
  by (simp add: spliceIn_def spliceOut_def id_take_nth_drop[symmetric] min_def)

lemma addTodo_rollback:
  assumes "initialized m" and "wellFormed m"
  shows "fst (addTodo False now newId t m) = None
       \<and> contents (snd (addTodo False now newId t m)) = contents m"
proof -
  have "\<forall>r \<in> set (todos m). r \<noteq> nextRef m"
    using assms(2) by (auto simp: wellFormed_def list_all_iff)
  then have "map ((objects m)(nextRef m := v)) (todos m) = map (objects m) (todos m)" for v
    by simp
  then show ?thesis
    using assms(1)
    by (cases "newTodo (createValidTodo now newId t)")
       (simp_all add: addTodo_def Let_def alloc_def saveTodos_fail contents_def getAllTodos_def
          emit_simps)
qed

lemma deleteTodo_rollback:
  "fst (deleteTodo False i m) = False \<and> contents (snd (deleteTodo False i m)) = contents m"
  by (auto simp: deleteTodo_def saveTodos_fail contents_def getAllTodos_def emit_simps
      splice_inverse findIndex_less split: option.splits)

lemma updateTodo_rollback:
  "fst (updateTodo False now i updates m) = False
   \<and> contents (snd (updateTodo False now i updates m)) = contents m"
  by (auto simp: updateTodo_def saveTodos_fail contents_def getAllTodos_def emit_simps Let_def
      split: option.splits)

lemma clearAllTodos_rollback:
  "fst (clearAllTodos False m) = False \<and> contents (snd (clearAllTodos False m)) = contents m"
  by (auto simp: clearAllTodos_def saveTodos_fail contents_def getAllTodos_def emit_simps)

lemma toggleTodo_rollback:
  assumes "initialized m" and "findById m i = Some r"
  shows "fst (toggleTodo False now i m) = False
       \<and> todos (snd (toggleTodo False now i m)) = todos m
       \<and> objects (snd (toggleTodo False now i m)) = (objects m)(r := (objects m r)\<lparr>updatedAt := now\<rparr>)"
  using assms by (auto simp: toggleTodo_def saveTodos_fail emit_simps)

subsection \<open>The load path on entries of any type\<close>

text \<open>
  On the objects that \<open>JSON.stringify\<close> writes for todo items, the functions on entries of
  any type return what the functions on todo items return, and throw nothing.
\<close>

lemma ofTodo_simps:
  "rawId (ofTodo t) = JStr (id' t)" "rawText (ofTodo t) = JStr (text' t)"
  "rawCompleted (ofTodo t) = JBool (completed t)" "rawCreatedAt (ofTodo t) = JStr (createdAt t)"
  "rawUpdatedAt (ofTodo t) = JStr (updatedAt t)"
  by (simp_all add: ofTodo_def)

lemma toTodo_ofTodo: "toTodo (ofTodo t) = t"
  by (simp add: toTodo_def ofTodo_def)

lemma withDefaultsAny_typed: "withDefaultsAny d (ofTodo t) = ofTodo (withDefaults d t)"
  by (simp add: withDefaultsAny_def withDefaults_def ofTodo_def)

lemma withDefaultsAll_typed:
  "withDefaultsAll defaultsAt k (map (\<lambda>t. Fields (ofTodo t)) ts)
     = Inr (map ofTodo (map (\<lambda>(i, t). withDefaults (defaultsAt i) t) (enumerate k ts)))"
  by (induction ts arbitrary: k) (simp_all add: withDefaultsAny_typed)

lemma validateAny_typed:
  "validateTodoTextAny (JStr s) = Inr (validateTodoText s)"
  "validateTodoIdAny (JStr s) = Inr (validateTodoId s)"
  "validateTimestampAny parseDate (JStr s) f = Inr (validateTimestamp parseDate s f)"
  "validateCompletedAny (JBool b) = validateCompleted b"
  by (simp_all add: validateTodoTextAny_def validateTodoIdAny_def validateTimestampAny_def
      validateCompletedAny_def validateCompleted_def validateTodoText_def validateTodoId_def
      validateTimestamp_def sanitizeInput_def Let_def trim_Nil)

lemma validateTodoDataAny_typed:
  "validateTodoDataAny parseDate now1 now2 (ofTodo t) =
     Inr \<lparr>isValid = isValid (validateTodoData parseDate now1 now2 t),
          errors = errors (validateTodoData parseDate now1 now2 t),
          sanitizedRaw = ofTodo (sanitizedTodo (validateTodoData parseDate now1 now2 t))\<rparr>"
  by (simp add: validateTodoDataAny_def validateTodoData_def ofTodo_simps validateAny_typed Let_def)

lemma validateItemsAny_typed:
  "validateItemsAny parseDate nowAt (map ofTodo ts) k =
     Inr (fst (validateItems parseDate nowAt ts k), map ofTodo (snd (validateItems parseDate nowAt ts k)))"
  by (induction ts arbitrary: k) (simp_all add: validateTodoDataAny_typed Let_def)

lemma duplicateScanAny_typed: "duplicateScanAny (map ofTodo ts) k M = duplicateScan ts k M"
  by (induction ts arbitrary: k M) (simp_all add: ofTodo_simps split: option.splits)

lemma validateTodoArrayAny_typed:
  "validateTodoArrayAny parseDate nowAt (map ofTodo ts) =
     Inr \<lparr>isValid = isValid (validateTodoArray parseDate nowAt ts),
          errors = errors (validateTodoArray parseDate nowAt ts),
          validRaw = map ofTodo (validTodos (validateTodoArray parseDate nowAt ts))\<rparr>"
  by (simp add: validateTodoArrayAny_def validateTodoArray_def validateItemsAny_typed
      duplicateScanAny_typed Let_def)

lemma storageLoadTodosAny_typed:
  "storageLoadTodosAny defaultsAt (map_option (map (\<lambda>t. Fields (ofTodo t))) (stored st))
     = Inr (map ofTodo (storageLoadTodos defaultsAt st))"
  by (cases "stored st") (simp_all add: storageLoadTodosAny_def storageLoadTodos_def withDefaultsAll_typed)

lemma loadTodosAny_typed:
  "loadTodosAny parseDate defaultsAt nowAt
     (map_option (map (\<lambda>t. Fields (ofTodo t))) (stored (storage m))) m
     = loadTodos parseDate defaultsAt nowAt m"
  by (simp add: loadTodosAny_def loadTodos_def storageLoadTodosAny_typed validateTodoArrayAny_typed
      comp_def toTodo_ofTodo Let_def)

lemma initializeAny_typed:
  "initializeAny parseDate defaultsAt nowAt
     (map_option (map (\<lambda>t. Fields (ofTodo t))) (stored (storage m))) m
     = initialize parseDate defaultsAt nowAt m"
  by (simp add: initializeAny_def initialize_def loadTodosAny_typed)

subsection \<open>Duplicate IDs in the storage\<close>

























subsection \<open>Export and import\<close>

lemma withDefaults_all_valid:
  "list_all (validRecord parseDate) ts \<Longrightarrow>
   map (\<lambda>(i, t). withDefaults (d i) t) (enumerate n ts) = ts"
  by (induction ts arbitrary: n) (auto simp: withDefaults_valid)

lemma storageLoadTodos_all_valid:
  "stored st = Some ts \<Longrightarrow> list_all (validRecord parseDate) ts \<Longrightarrow>
   storageLoadTodos defaultsAt st = ts"
  by (simp add: storageLoadTodos_def withDefaults_all_valid)

lemma validRecord_text: "validRecord parseDate t \<Longrightarrow> text' t \<noteq> []"
  by (auto simp: validRecord_iff validateTodoText_valid_iff trim_Nil)

lemma contents_importData_ok:
  assumes "\<not> list_ex (\<lambda>t. text' t = []) ts"
  shows "fst (importData True parseDate defaultsAt nowAt (Envelope (Some ts)) m) = True"
    and "contents (snd (importData True parseDate defaultsAt nowAt (Envelope (Some ts)) m)) =
           sort_key (\<lambda>v. - dateKey parseDate v)
             (validTodos (validateTodoArray parseDate nowAt
                (storageLoadTodos defaultsAt ((storage m)\<lparr>stored := Some ts, writes := Suc (writes (storage m))\<rparr>))))"
  using assms
  by (simp_all add: importData_def storageImportData_def storageSaveTodos_def split_beta
      contents_emit contents_loadTodos)

text \<open>
  C2, amended: when the stored copy equals the list, every record of the list is valid on
  its own, every text is left as it is by \<open>sanitizeInput\<close>, the list is in the order of
  the \<open>createdAt\<close> dates with the latest first, and the write of the import succeeds, then
  \<open>importData\<close> of what \<open>exportData\<close> returns succeeds and leaves the list as it was, in
  order and in every field.
\<close>

theorem export_import_roundtrip:
  assumes "stored (storage m) = Some (contents m)"
    and "list_all (validRecord parseDate) (contents m)"
    and "list_all (\<lambda>v. sanitizeInput (text' v) = text' v) (contents m)"
    and "sorted_wrt (\<lambda>a b. dateKey parseDate b \<le> dateKey parseDate a) (contents m)"
  shows "exportData exportDefaults m = Envelope (Some (contents m))
       \<and> fst (importData True parseDate defaultsAt nowAt (exportData exportDefaults m) m) = True
       \<and> contents (snd (importData True parseDate defaultsAt nowAt (exportData exportDefaults m) m))
           = contents m"
proof -
  let ?L = "contents m"
  let ?st = "(storage m)\<lparr>stored := Some ?L, writes := Suc (writes (storage m))\<rparr>"
  have ex: "exportData exportDefaults m = Envelope (Some ?L)"
    using assms(1,2) by (simp add: exportData_def storageExportData_def storageLoadTodos_all_valid)
  have texts: "\<not> list_ex (\<lambda>t. text' t = []) ?L"
    using assms(2) validRecord_text by (auto simp: list_ex_iff list_all_iff)
  have load: "storageLoadTodos defaultsAt ?st = ?L"
    using assms(2) by (intro storageLoadTodos_all_valid) simp_all
  have keep: "filter (validRecord parseDate) ?L = ?L"
    using assms(2) by (simp add: list_all_iff)
  have same: "map (\<lambda>t. t\<lparr>text' := sanitizeInput (text' t)\<rparr>) ?L = ?L"
    using assms(3) by (simp add: list_all_iff map_idI)
  have "sorted (map (\<lambda>v. - dateKey parseDate v) ?L)"
    using assms(4) by (simp add: sorted_map)
  then have srt: "sort_key (\<lambda>v. - dateKey parseDate v) ?L = ?L"
    by (rule sort_key_id_if_sorted)
  show ?thesis
    unfolding ex using contents_importData_ok[OF texts, of parseDate defaultsAt nowAt m]
    by (simp add: load validTodos_eq keep same srt)
qed

lemma amp_text:
  "isValid (validateTodoText (js ''Tom & Jerry''))"
  "sanitizeInput (js ''Tom & Jerry'') = js ''Tom &amp; Jerry''"
  "isValid (validateTodoText (js ''Tom &amp; Jerry''))"
  "sanitizeInput (js ''Tom &amp; Jerry'') = js ''Tom &amp;amp; Jerry''"
  by code_simp+

lemma bell_text: "isValid (validateTodoText [0x07])" "sanitizeInput [0x07] = []"
  by code_simp+

lemma ampManager_eq:
  "ampManager = \<lparr>storage = \<lparr>stored = Some [amp], writes = 1\<rparr>, todos = [0],
                   objects = blankObjects(0 := amp), nextRef = 1,
                   initialized = True, emitted = [TodosLoaded, Initialized, TodosSaved, TodoAdded 0]\<rparr>"
  by (simp add: ampManager_def readyManager_eq addTodo_valid_ok amp_text amp_def emptyStorage_def)

lemma bellManager_eq:
  "bellManager = \<lparr>storage = \<lparr>stored = Some [bell], writes = 1\<rparr>, todos = [0],
                   objects = blankObjects(0 := bell), nextRef = 1,
                   initialized = True, emitted = [TodosLoaded, Initialized, TodosSaved, TodoAdded 0]\<rparr>"
  by (simp add: bellManager_def readyManager_eq addTodo_valid_ok bell_text bell_def emptyStorage_def)

lemma backManager_eq:
  "backManager = \<lparr>storage = \<lparr>stored = Some [milk, dog], writes = 2\<rparr>, todos = [1, 0],
                   objects = blankObjects(0 := dog, 1 := milk), nextRef = 2,
                   initialized = True,
                   emitted = [TodosLoaded, Initialized, TodosSaved, TodoAdded 0, TodosSaved, TodoAdded 1]\<rparr>"
  by (simp add: backManager_def readyManager_eq addTodo_valid_ok valid_dog sanitize_dog valid_milk
      sanitize_milk dog_def milk_def emptyStorage_def)

lemma valid_amp: "validRecord sampleParse amp"
  unfolding validRecord_iff
  by (simp_all add: amp_def amp_text sampleParse_def)
     (code_simp+)

lemma contents_samples:
  "contents ampManager = [amp]" "contents bellManager = [bell]" "contents backManager = [milk, dog]"
  "contents dogManager = [dog, milk]"
  by (simp_all add: contents_def getAllTodos_def ampManager_eq bellManager_eq backManager_eq
      dogManager_eq)

lemma stored_samples:
  "stored (storage ampManager) = Some [amp]" "stored (storage bellManager) = Some [bell]"
  "stored (storage backManager) = Some [milk, dog]" "stored (storage dogManager) = Some [dog, milk]"
  by (simp_all add: ampManager_eq bellManager_eq backManager_eq dogManager_eq)

lemma export_samples:
  "exportData sampleDefaults ampManager = Envelope (Some [amp])"
  "exportData sampleDefaults bellManager = Envelope (Some [bell])"
  "exportData sampleDefaults backManager = Envelope (Some [milk, dog])"
  by (simp_all add: exportData_def storageExportData_def storageLoadTodos_def stored_samples
      withDefaults_valid[OF valid_amp] withDefaults_valid[OF valid_samples(1)]
      withDefaults_valid[OF valid_samples(2)])
     (simp add: withDefaults_def bell_def time1_def js_def)

text \<open>
  C2, as stated, fails in three ways, each at a manager reached by \<open>initialize\<close> and
  \<open>addTodo\<close> whose list equals the stored copy.  The load after the import sanitizes the
  stored texts again, so the ampersand that \<open>addTodo\<close> stored as \<open>&amp;\<close> comes back as
  \<open>&amp;amp;\<close>.  A text of one control character is valid and is stored as the empty
  text, and the import rejects a snapshot with an empty text.  And the load sorts by
  \<open>createdAt\<close>, so a list that \<open>addTodo\<close> built while the clock went back comes back in
  another order.
\<close>

theorem export_import_counterexample:
  "initialized ampManager \<and> stored (storage ampManager) = Some (contents ampManager)
   \<and> map text' (contents ampManager) = [js ''Tom &amp; Jerry'']
   \<and> fst (importData True sampleParse sampleDefaults sampleNow
             (exportData sampleDefaults ampManager) ampManager) = True
   \<and> map text' (contents (snd (importData True sampleParse sampleDefaults sampleNow
             (exportData sampleDefaults ampManager) ampManager))) = [js ''Tom &amp;amp; Jerry'']
   \<and> initialized bellManager \<and> stored (storage bellManager) = Some (contents bellManager)
   \<and> fst (importData True sampleParse sampleDefaults sampleNow
             (exportData sampleDefaults bellManager) bellManager) = False
   \<and> initialized backManager \<and> stored (storage backManager) = Some (contents backManager)
   \<and> contents backManager = [milk, dog]
   \<and> contents (snd (importData True sampleParse sampleDefaults sampleNow
             (exportData sampleDefaults backManager) backManager)) = [dog, milk]"
proof -
  have i: "initialized ampManager" "initialized bellManager" "initialized backManager"
    by (simp_all add: ampManager_eq bellManager_eq backManager_eq)
  have a: "\<not> list_ex (\<lambda>t. text' t = []) [amp]" "\<not> list_ex (\<lambda>t. text' t = []) [milk, dog]"
    by (simp_all add: amp_def milk_def dog_def js_def)
  have at: "text' amp = js ''Tom &amp; Jerry''" by (simp add: amp_def)
  have b: "fst (importData True sampleParse sampleDefaults sampleNow (Envelope (Some [bell])) bellManager)
             = False"
    by (simp add: importData_def storageImportData_def bell_def)
  show ?thesis
    using i b
    by (simp add: export_samples contents_samples stored_samples contents_importData_ok[OF a(1)]
        contents_importData_ok[OF a(2)] storageLoadTodos_def validTodos_eq
        withDefaults_valid[OF valid_amp] withDefaults_valid[OF valid_samples(1)]
        withDefaults_valid[OF valid_samples(2)] valid_amp valid_samples sample_sanitized
        sample_dateKey at amp_text)
qed

theorem export_import_roundtrip_witness:
  "stored (storage dogManager) = Some (contents dogManager)
   \<and> list_all (validRecord sampleParse) (contents dogManager)
   \<and> list_all (\<lambda>v. sanitizeInput (text' v) = text' v) (contents dogManager)
   \<and> sorted_wrt (\<lambda>a b. dateKey sampleParse b \<le> dateKey sampleParse a) (contents dogManager)
   \<and> fst (importData True sampleParse sampleDefaults sampleNow
             (exportData sampleDefaults dogManager) dogManager) = True
   \<and> contents (snd (importData True sampleParse sampleDefaults sampleNow
             (exportData sampleDefaults dogManager) dogManager)) = [dog, milk]"
proof -
  have a: "stored (storage dogManager) = Some (contents dogManager)"
    by (simp add: contents_samples stored_samples)
  have b: "list_all (validRecord sampleParse) (contents dogManager)"
    by (simp add: contents_samples valid_samples)
  have c: "list_all (\<lambda>v. sanitizeInput (text' v) = text' v) (contents dogManager)"
    by (simp add: contents_samples milk_def dog_def sanitize_milk sanitize_dog)
  have d: "sorted_wrt (\<lambda>a b. dateKey sampleParse b \<le> dateKey sampleParse a) (contents dogManager)"
    by (simp add: contents_samples sample_dateKey)
  note r = export_import_roundtrip [OF a b c d, where exportDefaults = sampleDefaults
      and defaultsAt = sampleDefaults and nowAt = sampleNow]
  have e: "fst (importData True sampleParse sampleDefaults sampleNow
             (exportData sampleDefaults dogManager) dogManager) = True"
    using r by blast
  have f: "contents (snd (importData True sampleParse sampleDefaults sampleNow
             (exportData sampleDefaults dogManager) dogManager)) = contents dogManager"
    using r by blast
  show ?thesis
    using a b c d e f by (simp add: contents_samples(4))
qed

subsection \<open>Statistics\<close>

text \<open>
  \<open>binaryExponent\<close> finds the binade of a number of the normal range, and \<open>toDouble\<close> returns
  a multiple of the unit in the last place that is at most half a unit away.
\<close>

lemma pow2_Suc: "pow2 (e + 1) = 2 * pow2 e"
proof (cases "0 \<le> e")
  case True
  then show ?thesis by (simp add: pow2_def nat_add_distrib)
next
  case False
  then have "nat (- e) = Suc (nat (- (e + 1)))" by simp
  then show ?thesis using False by (auto simp: pow2_def)
qed

lemma pow2_pred: "pow2 (e - 1) = pow2 e / 2"
  using pow2_Suc[of "e - 1"] by simp

lemma pow2_add2: "pow2 (2 + e) = 4 * pow2 e"
  using pow2_Suc[of "e + 1"] pow2_Suc[of e] by (simp add: add.commute)

lemma pow2_pos: "0 < pow2 e"
  by (simp add: pow2_def)

lemma binaryExponent_bounds:
  "1 / 2 ^ n \<le> x \<Longrightarrow> x < 2 ^ n \<Longrightarrow>
   pow2 (binaryExponent n x) \<le> x \<and> x < pow2 (binaryExponent n x + 1)"
proof (induction n arbitrary: x)
  case 0
  then show ?case by (simp add: pow2_def)
next
  case (Suc n)
  show ?case
  proof (cases "2 \<le> x")
    case True
    have "1 / 2 ^ n \<le> x / 2"
    proof -
      have "(1::rat) / 2 ^ n \<le> 1" by (simp add: divide_le_eq)
      also have "(1::rat) \<le> x / 2" using True by simp
      finally show ?thesis .
    qed
    moreover have "x / 2 < 2 ^ n" using Suc.prems by simp
    ultimately have "pow2 (binaryExponent n (x / 2)) \<le> x / 2
                   \<and> x / 2 < pow2 (binaryExponent n (x / 2) + 1)"
      by (rule Suc.IH)
    then show ?thesis using True by (simp add: pow2_Suc pow2_add2)
  next
    case False
    show ?thesis
    proof (cases "x < 1")
      case True
      show ?thesis
      proof (cases n)
        case 0
        then show ?thesis using True Suc.prems by (simp add: pow2_def)
      next
        case (Suc k)
        have "1 / 2 ^ n \<le> x * 2" using Suc.prems by (simp add: field_simps)
        moreover have "x * 2 < 2 ^ n"
        proof -
          have "x * 2 < 2" using True by simp
          also have "(2::rat) \<le> 2 ^ n" using Suc by simp
          finally show ?thesis .
        qed
        ultimately have "pow2 (binaryExponent n (x * 2)) \<le> x * 2
                       \<and> x * 2 < pow2 (binaryExponent n (x * 2) + 1)"
          by (rule Suc.IH)
        then show ?thesis using True \<open>\<not> 2 \<le> x\<close> by (simp add: pow2_Suc pow2_pred)
      qed
    next
      case False
      then show ?thesis using \<open>\<not> 2 \<le> x\<close> by (simp add: pow2_def)
    qed
  qed
qed

lemma roundTiesToEven_near: "\<bar>of_int (roundTiesToEven x) - x\<bar> \<le> 1 / 2"
proof -
  have "of_int \<lfloor>x\<rfloor> \<le> x" "x < of_int \<lfloor>x\<rfloor> + 1" by linarith+
  then show ?thesis by (auto simp: roundTiesToEven_def Let_def abs_le_iff)
qed



lemma floor_half: "\<lfloor>(1::rat) / 2\<rfloor> = 0"
  by (simp add: floor_eq_iff)

lemma toDouble_0: "toDouble 0 = 0"
  by (simp add: toDouble_def)

lemma getStats_empty:
  "todos m = [] \<Longrightarrow>
   getStats m = \<lparr>total = 0, completed' = 0, pending = 0, completionRate = 0\<rparr>"
  by (simp add: getStats_def getCompletedTodos_def getPendingTodos_def toDouble_0 mathRound_def
      floor_half)

lemma stats_counts: "total (getStats statsManager) = 40 \<and> completed' (getStats statsManager) = 23
   \<and> pending (getStats statsManager) = 17"
  by code_simp

lemma double_quotient: "toDouble (23 / 40) = 2589569785738035 / 4503599627370496"
  by code_simp


lemma double_product: "toDouble (toDouble (23 / 40) * 100) = 8092405580431359 / 140737488355328"
  by code_simp

lemma stats_rate: "completionRate (getStats statsManager) = toDouble (57 / 100)"
  by code_simp

lemma double_hundredths: "toDouble (57 / 100) < toDouble (58 / 100)"
  by code_simp

lemma exact_rounding: "\<lfloor>(23 / 40 :: rat) * 100 + 1 / 2\<rfloor> = 58"
  by code_simp

lemma toDouble_near:
  assumes "1 / 2 ^ 1100 \<le> \<bar>x\<bar>" and "\<bar>x\<bar> < 2 ^ 1100"
  shows "\<exists>e n. pow2 e \<le> \<bar>x\<bar> \<and> \<bar>x\<bar> < pow2 (e + 1)
               \<and> toDouble x = of_int n * pow2 (e - 52)
               \<and> \<bar>toDouble x - x\<bar> \<le> pow2 (e - 52) / 2"
proof -
  let ?e = "binaryExponent 1100 \<bar>x\<bar>"
  let ?u = "pow2 (?e - 52)"
  let ?n = "roundTiesToEven (x / ?u)"
  have u: "0 < ?u" by (rule pow2_pos)
  have x: "x \<noteq> 0" using assms(1) by auto
  have bounds: "pow2 ?e \<le> \<bar>x\<bar> \<and> \<bar>x\<bar> < pow2 (?e + 1)"
    using assms by (rule binaryExponent_bounds)
  have val: "toDouble x = of_int ?n * ?u"
    using x by (simp add: toDouble_def Let_def)
  have "\<bar>of_int ?n - x / ?u\<bar> \<le> 1 / 2" by (rule roundTiesToEven_near)
  then have "\<bar>of_int ?n - x / ?u\<bar> * ?u \<le> 1 / 2 * ?u"
    using u by (intro mult_right_mono) simp_all
  moreover have "\<bar>of_int ?n - x / ?u\<bar> * ?u = \<bar>of_int ?n * ?u - x\<bar>"
  proof -
    have "(of_int ?n - x / ?u) * ?u = of_int ?n * ?u - x"
      using u by (simp add: left_diff_distrib)
    moreover have "\<bar>of_int ?n - x / ?u\<bar> * ?u = \<bar>(of_int ?n - x / ?u) * ?u\<bar>"
      using u by (simp add: abs_mult)
    ultimately show ?thesis by simp
  qed
  ultimately have "\<bar>toDouble x - x\<bar> \<le> ?u / 2"
    by (simp add: val)
  then show ?thesis using bounds val by blast
qed

text \<open>
  The counts of \<open>getStats\<close> are the length of the list and the numbers of completed and of
  pending items, and for the empty list all four fields are 0: the quotient is not
  computed when \<open>total\<close> is 0.
\<close>

lemma getStats_counts:
  "total (getStats m) = length (getAllTodos m)
   \<and> completed' (getStats m) = length (filter completed (contents m))
   \<and> pending (getStats m) = length (filter (\<lambda>v. \<not> completed v) (contents m))
   \<and> completed' (getStats m) + pending (getStats m) = total (getStats m)"
proof -
  have "length (filter (\<lambda>r. completed (objects m r)) (todos m))
          + length (filter (\<lambda>r. \<not> completed (objects m r)) (todos m)) = length (todos m)"
    by (rule sum_length_filter_compl)
  then show ?thesis
    by (simp add: getStats_def Let_def getAllTodos_def contents_def getCompletedTodos_def
        getPendingTodos_def filter_map comp_def)
qed



text \<open>
  C8 does not hold of \<open>completionRate\<close>.  With 23 of 40 items completed the rate is 0.575
  exactly, which rounds to 0.58.  The binary64 quotient is a little below 0.575, its
  product with 100 is the binary64 number below 57.5, \<open>Math.round\<close> of that is 57, and
  \<open>getStats\<close> returns the binary64 number of 0.57.
\<close>

theorem getStats_tie_rounds_down:
  "total (getStats statsManager) = 40 \<and> completed' (getStats statsManager) = 23
   \<and> pending (getStats statsManager) = 17
   \<and> toDouble (23 / 40) < 23 / 40
   \<and> toDouble (toDouble (23 / 40) * 100) < 115 / 2
   \<and> completionRate (getStats statsManager) = toDouble (57 / 100)
   \<and> \<lfloor>(23 / 40 :: rat) * 100 + 1 / 2\<rfloor> = 58
   \<and> toDouble (57 / 100) < toDouble (58 / 100)"
proof -
  have a: "toDouble (23 / 40) < 23 / 40" by (simp add: double_quotient)
  have b: "toDouble (toDouble (23 / 40) * 100) < 115 / 2" by (simp add: double_product)
  show ?thesis using stats_counts a b stats_rate double_hundredths exact_rounding by blast
qed

end
